theory Spec2Isabelle
  imports Main
begin

section \<open>Kubernetes API objects handled by the controller\<close>

text \<open>
  The controller of \<^verbatim>\<open>managedclusterrolebinding_controller.go\<close> reads a
  ManagedClusterRoleBinding (the Grant) through its hub client and writes RBAC objects
  through its spoke client.  Every Go struct the code touches is a record with the fields
  the code reads or writes; a Go map of labels is an association list with distinct keys;
  a slice that may be \<^verbatim>\<open>nil\<close> is an optional list.
\<close>

type_synonym labels = "(string \<times> string) list"

record ObjectMeta =
  Name :: string
  Namespace :: string
  Labels :: labels
  Finalizers :: "string list"
  DeletionTimestamp :: "nat option"

record Subject =
  sub_APIGroup :: string
  sub_Kind :: string
  sub_Name :: string
  sub_Namespace :: string

record RoleRef =
  ref_APIGroup :: string
  ref_Kind :: string
  ref_Name :: string

record PolicyRule =
  APIGroups :: "string list"
  Resources :: "string list"
  Verbs :: "string list"
  ResourceNames :: "string list"

record ServiceAccount =
  sa_ObjectMeta :: ObjectMeta

record ClusterRole =
  cr_ObjectMeta :: ObjectMeta
  cr_Rules :: "PolicyRule list"

record ClusterRoleBinding =
  crb_ObjectMeta :: ObjectMeta
  crb_Subjects :: "Subject list"
  crb_RoleRef :: RoleRef

record RoleBinding =
  rb_ObjectMeta :: ObjectMeta
  rb_Subjects :: "Subject list"
  rb_RoleRef :: RoleRef

record ClusterRoleRef =
  cref_Name :: string
  cref_Namespaces :: "string list option"

record ManagedClusterRoleBinding =
  mcrb_ObjectMeta :: ObjectMeta
  mcrb_Subjects :: "Subject list"
  mcrb_RoleRef :: ClusterRoleRef

text \<open>\<^verbatim>\<open>client.Object\<close>: the interface value the client functions take, one
  constructor for each concrete type the controller passes.\<close>

datatype object =
    SA ServiceAccount
  | CR ClusterRole
  | CRB ClusterRoleBinding
  | RB RoleBinding
  | MCRB ManagedClusterRoleBinding

datatype kind =
    ServiceAccountKind
  | ClusterRoleKind
  | ClusterRoleBindingKind
  | RoleBindingKind
  | ManagedClusterRoleBindingKind

fun kindOf :: "object \<Rightarrow> kind" where
  "kindOf (SA x) = ServiceAccountKind"
| "kindOf (CR x) = ClusterRoleKind"
| "kindOf (CRB x) = ClusterRoleBindingKind"
| "kindOf (RB x) = RoleBindingKind"
| "kindOf (MCRB x) = ManagedClusterRoleBindingKind"

fun GetObjectMeta :: "object \<Rightarrow> ObjectMeta" where
  "GetObjectMeta (SA x) = sa_ObjectMeta x"
| "GetObjectMeta (CR x) = cr_ObjectMeta x"
| "GetObjectMeta (CRB x) = crb_ObjectMeta x"
| "GetObjectMeta (RB x) = rb_ObjectMeta x"
| "GetObjectMeta (MCRB x) = mcrb_ObjectMeta x"

definition GetLabels :: "object \<Rightarrow> labels" where
  "GetLabels ob = Labels (GetObjectMeta ob)"

text \<open>An object's identity in a store: its kind, namespace and name.\<close>

type_synonym key = "kind \<times> string \<times> string"

definition keyOf :: "object \<Rightarrow> key" where
  "keyOf ob = (kindOf ob, Namespace (GetObjectMeta ob), Name (GetObjectMeta ob))"

section \<open>The two stores and the client calls\<close>

text \<open>
  The controller holds two clients, \<^verbatim>\<open>HubClient\<close> and \<^verbatim>\<open>SpokeClient\<close>.
  The world is the content of both stores together with the trace of every client call
  issued so far.  A call can fail for reasons outside the program (network, conflict,
  permission): the fault schedule decides, from the number of calls issued so far, the
  client and the call, whether the call fails and with which error.
\<close>

datatype error = NotFound | AlreadyExists | StoreError string

datatype client = HubClient | SpokeClient

datatype call =
    OpGet key
  | OpList kind labels
  | OpCreate object
  | OpPatch object
  | OpUpdate object
  | OpDelete object

type_synonym faults = "nat \<Rightarrow> client \<Rightarrow> call \<Rightarrow> error option"

record world =
  hub :: "object list"
  spoke :: "object list"
  trace :: "(client \<times> call) list"

datatype outcome = OK | Err error | Panic

definition store :: "client \<Rightarrow> world \<Rightarrow> object list" where
  "store c w = (case c of HubClient \<Rightarrow> hub w | SpokeClient \<Rightarrow> spoke w)"

definition set_store :: "client \<Rightarrow> object list \<Rightarrow> world \<Rightarrow> world" where
  "set_store c s w = (case c of HubClient \<Rightarrow> w\<lparr>hub := s\<rparr> | SpokeClient \<Rightarrow> w\<lparr>spoke := s\<rparr>)"

definition record_call :: "client \<Rightarrow> call \<Rightarrow> world \<Rightarrow> world" where
  "record_call c op w = w\<lparr>trace := trace w @ [(c, op)]\<rparr>"

text \<open>A store is the list of its objects, in the order of their creation.  \<open>lookup\<close> and
  \<open>replace\<close> act on the first object with the identity, \<open>remove\<close> on every object
  with it; create refuses an identity the store already holds.\<close>

definition lookup :: "key \<Rightarrow> object list \<Rightarrow> object option" where
  "lookup k s = find (\<lambda>ob. keyOf ob = k) s"

fun replace :: "object \<Rightarrow> object list \<Rightarrow> object list" where
  "replace new [] = []"
| "replace new (ob # s) = (if keyOf ob = keyOf new then new # s else ob # replace new s)"

definition remove :: "key \<Rightarrow> object list \<Rightarrow> object list" where
  "remove k s = filter (\<lambda>ob. keyOf ob \<noteq> k) s"

text \<open>\<^verbatim>\<open>labels.SelectorFromSet(ls)\<close>: the selector that requires every pair of
  \<open>ls\<close>; an object whose label set equals \<open>ls\<close> is selected, and the empty set
  selects everything.\<close>

definition SelectorFromSet :: "labels \<Rightarrow> labels \<Rightarrow> bool" where
  "SelectorFromSet sel ls = list_all (\<lambda>(k, v). map_of ls k = Some v) sel"

text \<open>
  Modelled from the spec: the methods of \<^verbatim>\<open>client.Client\<close> are not part of the
  source file.  Section 6 of the specification gives the store interface: get by
  identity, list by label set, create, update and delete, each of which may fail.  Every
  call is appended to the trace, also when it fails.  A call that the fault schedule lets
  through fails only for the reason the store itself has: get, patch, update and delete
  of an absent identity report not-found, create of a present identity reports
  already-exists.  A successful delete removes the object at once.
\<close>

definition client_Get :: "faults \<Rightarrow> client \<Rightarrow> key \<Rightarrow> world \<Rightarrow> (error + object) \<times> world" where
  "client_Get fl c k w =
     (let w' = record_call c (OpGet k) w in
      case fl (length (trace w)) c (OpGet k) of
        Some e \<Rightarrow> (Inl e, w')
      | None \<Rightarrow>
          (case lookup k (store c w) of
             None \<Rightarrow> (Inl NotFound, w')
           | Some ob \<Rightarrow> (Inr ob, w')))"

definition client_List ::
  "faults \<Rightarrow> client \<Rightarrow> kind \<Rightarrow> labels \<Rightarrow> world \<Rightarrow> (error + object list) \<times> world" where
  "client_List fl c kd sel w =
     (let w' = record_call c (OpList kd sel) w in
      case fl (length (trace w)) c (OpList kd sel) of
        Some e \<Rightarrow> (Inl e, w')
      | None \<Rightarrow>
          (Inr (filter (\<lambda>ob. kindOf ob = kd \<and> SelectorFromSet sel (GetLabels ob)) (store c w)), w'))"

definition client_Create :: "faults \<Rightarrow> client \<Rightarrow> object \<Rightarrow> world \<Rightarrow> error option \<times> world" where
  "client_Create fl c ob w =
     (let w' = record_call c (OpCreate ob) w in
      case fl (length (trace w)) c (OpCreate ob) of
        Some e \<Rightarrow> (Some e, w')
      | None \<Rightarrow>
          (case lookup (keyOf ob) (store c w) of
             Some old \<Rightarrow> (Some AlreadyExists, w')
           | None \<Rightarrow> (None, set_store c (store c w @ [ob]) w')))"

definition client_Patch :: "faults \<Rightarrow> client \<Rightarrow> object \<Rightarrow> world \<Rightarrow> error option \<times> world" where
  "client_Patch fl c ob w =
     (let w' = record_call c (OpPatch ob) w in
      case fl (length (trace w)) c (OpPatch ob) of
        Some e \<Rightarrow> (Some e, w')
      | None \<Rightarrow>
          (case lookup (keyOf ob) (store c w) of
             None \<Rightarrow> (Some NotFound, w')
           | Some old \<Rightarrow> (None, set_store c (replace ob (store c w)) w')))"

definition client_Update :: "faults \<Rightarrow> client \<Rightarrow> object \<Rightarrow> world \<Rightarrow> error option \<times> world" where
  "client_Update fl c ob w =
     (let w' = record_call c (OpUpdate ob) w in
      case fl (length (trace w)) c (OpUpdate ob) of
        Some e \<Rightarrow> (Some e, w')
      | None \<Rightarrow>
          (case lookup (keyOf ob) (store c w) of
             None \<Rightarrow> (Some NotFound, w')
           | Some old \<Rightarrow> (None, set_store c (replace ob (store c w)) w')))"

definition client_Delete :: "faults \<Rightarrow> client \<Rightarrow> object \<Rightarrow> world \<Rightarrow> error option \<times> world" where
  "client_Delete fl c ob w =
     (let w' = record_call c (OpDelete ob) w in
      case fl (length (trace w)) c (OpDelete ob) of
        Some e \<Rightarrow> (Some e, w')
      | None \<Rightarrow>
          (case lookup (keyOf ob) (store c w) of
             None \<Rightarrow> (Some NotFound, w')
           | Some old \<Rightarrow> (None, set_store c (remove (keyOf ob) (store c w)) w')))"

section \<open>The resource synchronizer\<close>

text \<open>
  Modelled from the spec: \<^verbatim>\<open>cu.CreateOrPatch\<close> of the imported client package is
  not part of the source file.  Section 4.1 of the specification gives its contract: fetch
  by identity; if absent, create with the desired state; if present, apply the mutator to
  the existing object and write that back; never delete; surface the store's error
  unmodified.  The mutator receives a \<^verbatim>\<open>client.Object\<close> and asserts its concrete
  type, so it is a partial function here: \<open>None\<close> is the failed type assertion.
\<close>

definition CreateOrPatch ::
  "faults \<Rightarrow> client \<Rightarrow> object \<Rightarrow> (object \<Rightarrow> bool \<Rightarrow> object option) \<Rightarrow> world \<Rightarrow> outcome \<times> world" where
  "CreateOrPatch fl c obj transform w =
     (case client_Get fl c (keyOf obj) w of
        (Inl NotFound, w1) \<Rightarrow>
          (case transform obj True of
             None \<Rightarrow> (Panic, w1)
           | Some md \<Rightarrow>
               (case client_Create fl c md w1 of
                  (Some e, w2) \<Rightarrow> (Err e, w2)
                | (None, w2) \<Rightarrow> (OK, w2)))
      | (Inl e, w1) \<Rightarrow> (Err e, w1)
      | (Inr cur, w1) \<Rightarrow>
          (case transform cur False of
             None \<Rightarrow> (Panic, w1)
           | Some md \<Rightarrow>
               (case client_Patch fl c md w1 of
                  (Some e, w2) \<Rightarrow> (Err e, w2)
                | (None, w2) \<Rightarrow> (OK, w2))))"

section \<open>The reconciler\<close>

text \<open>
  Two names the source imports from the sibling packages \<^verbatim>\<open>common\<close> and
  \<^verbatim>\<open>utils\<close> are parameters of the model: the finalizer string
  \<^verbatim>\<open>common.SpokeAuthorizationFinalizer\<close> and the function
  \<^verbatim>\<open>utils.GetUserIDAndHubOwnerIDFromLabelValues\<close>.
\<close>

record deps =
  SpokeAuthorizationFinalizer :: string
  GetUserIDAndHubOwnerIDFromLabelValues :: "ManagedClusterRoleBinding \<Rightarrow> string \<times> string"

text \<open>The finalizer helpers of \<^verbatim>\<open>controllerutil\<close>.\<close>

definition ContainsFinalizer :: "ManagedClusterRoleBinding \<Rightarrow> string \<Rightarrow> bool" where
  "ContainsFinalizer m f = (f \<in> set (Finalizers (mcrb_ObjectMeta m)))"

definition AddFinalizer :: "ManagedClusterRoleBinding \<Rightarrow> string \<Rightarrow> ManagedClusterRoleBinding" where
  "AddFinalizer m f =
     (if f \<in> set (Finalizers (mcrb_ObjectMeta m)) then m
      else m\<lparr>mcrb_ObjectMeta := (mcrb_ObjectMeta m)\<lparr>Finalizers := Finalizers (mcrb_ObjectMeta m) @ [f]\<rparr>\<rparr>)"

definition RemoveFinalizer :: "ManagedClusterRoleBinding \<Rightarrow> string \<Rightarrow> ManagedClusterRoleBinding" where
  "RemoveFinalizer m f =
     m\<lparr>mcrb_ObjectMeta :=
        (mcrb_ObjectMeta m)\<lparr>Finalizers := filter (\<lambda>x. x \<noteq> f) (Finalizers (mcrb_ObjectMeta m))\<rparr>\<rparr>"

text \<open>\<^verbatim>\<open>rbac.GroupName\<close>.\<close>

definition GroupName :: string where
  "GroupName = ''rbac.authorization.k8s.io''"

text \<open>\<^verbatim>\<open>addFinalizerIfNeeded\<close>: the Grant is passed by pointer, so the updated
  Grant is returned with the error.\<close>

definition addFinalizerIfNeeded ::
  "deps \<Rightarrow> faults \<Rightarrow> ManagedClusterRoleBinding \<Rightarrow> world
     \<Rightarrow> error option \<times> ManagedClusterRoleBinding \<times> world" where
  "addFinalizerIfNeeded d fl managedCRB w =
     (if \<not> ContainsFinalizer managedCRB (SpokeAuthorizationFinalizer d) then
        (let m = AddFinalizer managedCRB (SpokeAuthorizationFinalizer d) in
         case client_Update fl SpokeClient (MCRB m) w of
           (Some e, w') \<Rightarrow> (Some e, m, w')
         | (None, w') \<Rightarrow> (None, m, w'))
      else (None, managedCRB, w))"

text \<open>The loop \<^verbatim>\<open>for _, x := range list.Items\<close> of
  \<^verbatim>\<open>deleteAssociatedResources\<close>: delete each item, return at the first error.\<close>

fun deleteItems :: "faults \<Rightarrow> object list \<Rightarrow> world \<Rightarrow> error option \<times> world" where
  "deleteItems fl [] w = (None, w)"
| "deleteItems fl (x # xs) w =
     (case client_Delete fl SpokeClient x w of
        (Some e, w') \<Rightarrow> (Some e, w')
      | (None, w') \<Rightarrow> deleteItems fl xs w')"

text \<open>One of the three blocks of \<^verbatim>\<open>deleteAssociatedResources\<close>: list a kind by
  the Grant's labels and, only if the listing returned no error, delete the items.\<close>

definition sweepKind :: "faults \<Rightarrow> kind \<Rightarrow> labels \<Rightarrow> world \<Rightarrow> error option \<times> world" where
  "sweepKind fl kd ls w =
     (case client_List fl SpokeClient kd ls w of
        (Inl e, w') \<Rightarrow> (None, w')
      | (Inr items, w') \<Rightarrow> deleteItems fl items w')"

definition deleteAssociatedResources ::
  "faults \<Rightarrow> ManagedClusterRoleBinding \<Rightarrow> world \<Rightarrow> error option \<times> world" where
  "deleteAssociatedResources fl managedCRB w =
     (case sweepKind fl ServiceAccountKind (Labels (mcrb_ObjectMeta managedCRB)) w of
        (Some e, w1) \<Rightarrow> (Some e, w1)
      | (None, w1) \<Rightarrow>
          (case sweepKind fl ClusterRoleKind (Labels (mcrb_ObjectMeta managedCRB)) w1 of
             (Some e, w2) \<Rightarrow> (Some e, w2)
           | (None, w2) \<Rightarrow>
               sweepKind fl ClusterRoleBindingKind (Labels (mcrb_ObjectMeta managedCRB)) w2))"

text \<open>The desired objects built by \<^verbatim>\<open>Reconcile\<close>, named after its variables.\<close>

definition cr :: "string \<Rightarrow> string \<Rightarrow> ManagedClusterRoleBinding \<Rightarrow> ClusterRole" where
  "cr userName hubOwnerID managedCRB =
     \<lparr> cr_ObjectMeta =
         \<lparr> Name = ''impersonate-'' @ userName @ ''-'' @ hubOwnerID,
           Namespace = '''',
           Labels = Labels (mcrb_ObjectMeta managedCRB),
           Finalizers = [],
           DeletionTimestamp = None \<rparr>,
       cr_Rules =
         [\<lparr> APIGroups = [''''],
            Resources = [''users''],
            Verbs = [''impersonate''],
            ResourceNames = [userName] \<rparr>] \<rparr>"

definition crb :: "string \<Rightarrow> string \<Rightarrow> ManagedClusterRoleBinding \<Rightarrow> ClusterRoleBinding" where
  "crb userName hubOwnerID managedCRB =
     \<lparr> crb_ObjectMeta =
         \<lparr> Name = ''impersonate-'' @ userName @ ''-'' @ hubOwnerID @ ''-rolebinding'',
           Namespace = '''',
           Labels = Labels (mcrb_ObjectMeta managedCRB),
           Finalizers = [],
           DeletionTimestamp = None \<rparr>,
       crb_Subjects =
         [\<lparr> sub_APIGroup = '''',
            sub_Kind = ''ServiceAccount'',
            sub_Name = ''cluster-gateway'',
            sub_Namespace = ''open-cluster-management-managed-serviceaccount'' \<rparr>],
       crb_RoleRef =
         \<lparr> ref_APIGroup = GroupName,
           ref_Kind = ''ClusterRole'',
           ref_Name = Name (cr_ObjectMeta (cr userName hubOwnerID managedCRB)) \<rparr> \<rparr>"

definition sub :: "string \<Rightarrow> Subject list" where
  "sub userName =
     [\<lparr> sub_APIGroup = '''', sub_Kind = ''User'', sub_Name = userName, sub_Namespace = '''' \<rparr>]"

definition givenClusterRolebinding :: "string \<Rightarrow> ManagedClusterRoleBinding \<Rightarrow> ClusterRoleBinding" where
  "givenClusterRolebinding userName managedCRB =
     \<lparr> crb_ObjectMeta =
         \<lparr> Name = Name (mcrb_ObjectMeta managedCRB),
           Namespace = '''',
           Labels = Labels (mcrb_ObjectMeta managedCRB),
           Finalizers = [],
           DeletionTimestamp = None \<rparr>,
       crb_Subjects = sub userName,
       crb_RoleRef =
         \<lparr> ref_APIGroup = GroupName,
           ref_Kind = ''ClusterRole'',
           ref_Name = cref_Name (mcrb_RoleRef managedCRB) \<rparr> \<rparr>"

definition givenRolebinding :: "string \<Rightarrow> ManagedClusterRoleBinding \<Rightarrow> string \<Rightarrow> RoleBinding" where
  "givenRolebinding userName managedCRB ns =
     \<lparr> rb_ObjectMeta =
         \<lparr> Name = Name (mcrb_ObjectMeta managedCRB),
           Namespace = ns,
           Labels = Labels (mcrb_ObjectMeta managedCRB),
           Finalizers = [],
           DeletionTimestamp = None \<rparr>,
       rb_Subjects = sub userName,
       rb_RoleRef =
         \<lparr> ref_APIGroup = GroupName,
           ref_Kind = ''Role'',
           ref_Name = cref_Name (mcrb_RoleRef managedCRB) \<rparr> \<rparr>"

text \<open>The mutator closures handed to \<^verbatim>\<open>CreateOrPatch\<close>: a type assertion on
  the object, then the assignments of the closure's body.\<close>

definition mutateClusterRole :: "ClusterRole \<Rightarrow> object \<Rightarrow> bool \<Rightarrow> object option" where
  "mutateClusterRole want obj createOp =
     (case obj of
        CR x \<Rightarrow> Some (CR (x\<lparr>cr_Rules := cr_Rules want\<rparr>))
      | _ \<Rightarrow> None)"

definition mutateClusterRoleBinding :: "ClusterRoleBinding \<Rightarrow> object \<Rightarrow> bool \<Rightarrow> object option" where
  "mutateClusterRoleBinding want obj createOp =
     (case obj of
        CRB x \<Rightarrow> Some (CRB (x\<lparr>crb_Subjects := crb_Subjects want, crb_RoleRef := crb_RoleRef want\<rparr>))
      | _ \<Rightarrow> None)"

definition mutateRoleBinding :: "RoleBinding \<Rightarrow> object \<Rightarrow> bool \<Rightarrow> object option" where
  "mutateRoleBinding want obj createOp =
     (case obj of
        RB x \<Rightarrow> Some (RB (x\<lparr>rb_Subjects := rb_Subjects want, rb_RoleRef := rb_RoleRef want\<rparr>))
      | _ \<Rightarrow> None)"

text \<open>The loop \<^verbatim>\<open>for _, ns := range managedCRB.RoleRef.Namespaces\<close>.\<close>

fun rangeNamespaces ::
  "faults \<Rightarrow> string \<Rightarrow> ManagedClusterRoleBinding \<Rightarrow> string list \<Rightarrow> world \<Rightarrow> outcome \<times> world" where
  "rangeNamespaces fl userName managedCRB [] w = (OK, w)"
| "rangeNamespaces fl userName managedCRB (ns # rest) w =
     (case CreateOrPatch fl SpokeClient (RB (givenRolebinding userName managedCRB ns))
             (mutateRoleBinding (givenRolebinding userName managedCRB ns)) w of
        (OK, w') \<Rightarrow> rangeNamespaces fl userName managedCRB rest w'
      | (r, w') \<Rightarrow> (r, w'))"

text \<open>Lines 93 to 215 of \<^verbatim>\<open>Reconcile\<close>: the three synchronisation steps, each
  returning at the first error.\<close>

definition materialize ::
  "faults \<Rightarrow> string \<Rightarrow> string \<Rightarrow> ManagedClusterRoleBinding \<Rightarrow> world \<Rightarrow> outcome \<times> world" where
  "materialize fl userName hubOwnerID managedCRB w =
     (case CreateOrPatch fl SpokeClient (CR (cr userName hubOwnerID managedCRB))
             (mutateClusterRole (cr userName hubOwnerID managedCRB)) w of
        (OK, w1) \<Rightarrow>
          (case CreateOrPatch fl SpokeClient (CRB (crb userName hubOwnerID managedCRB))
                  (mutateClusterRoleBinding (crb userName hubOwnerID managedCRB)) w1 of
             (OK, w2) \<Rightarrow>
               (case cref_Namespaces (mcrb_RoleRef managedCRB) of
                  None \<Rightarrow>
                    CreateOrPatch fl SpokeClient (CRB (givenClusterRolebinding userName managedCRB))
                      (mutateClusterRoleBinding (givenClusterRolebinding userName managedCRB)) w2
                | Some nss \<Rightarrow> rangeNamespaces fl userName managedCRB nss w2)
           | (r, w2) \<Rightarrow> (r, w2))
      | (r, w1) \<Rightarrow> (r, w1))"

text \<open>\<^verbatim>\<open>Reconcile\<close>.  The request is the namespaced name of the Grant.  The Go
  function returns an always empty \<^verbatim>\<open>reconcile.Result\<close> and an error; the
  outcome here is \<open>OK\<close> for a nil error, \<open>Err e\<close> for the error \<open>e\<close>, and
  \<open>Panic\<close> for the run-time panic of an index out of range or a failed type
  assertion.\<close>

definition Reconcile :: "deps \<Rightarrow> faults \<Rightarrow> string \<times> string \<Rightarrow> world \<Rightarrow> outcome \<times> world" where
  "Reconcile d fl req w =
     (case client_Get fl HubClient (ManagedClusterRoleBindingKind, req) w of
        (Inl e, w1) \<Rightarrow> (Err e, w1)
      | (Inr ob, w1) \<Rightarrow>
          (case ob of
             MCRB managedCRB \<Rightarrow>
               (let hubOwnerID = snd (GetUserIDAndHubOwnerIDFromLabelValues d managedCRB) in
                case mcrb_Subjects managedCRB of
                  [] \<Rightarrow> (Panic, w1)
                | s0 # others \<Rightarrow>
                    (let userName = sub_Name s0 in
                     if DeletionTimestamp (mcrb_ObjectMeta managedCRB) \<noteq> None then
                       (if ContainsFinalizer managedCRB (SpokeAuthorizationFinalizer d) then
                          (case deleteAssociatedResources fl managedCRB w1 of
                             (Some e, w2) \<Rightarrow> (Err e, w2)
                           | (None, w2) \<Rightarrow>
                               (case client_Update fl SpokeClient
                                       (MCRB (RemoveFinalizer managedCRB (SpokeAuthorizationFinalizer d))) w2 of
                                  (Some e, w3) \<Rightarrow> (Err e, w3)
                                | (None, w3) \<Rightarrow> (OK, w3)))
                        else (OK, w1))
                     else
                       (case addFinalizerIfNeeded d fl managedCRB w1 of
                          (Some e, m, w2) \<Rightarrow> (Err e, w2)
                        | (None, m, w2) \<Rightarrow> materialize fl userName hubOwnerID m w2)))
           | _ \<Rightarrow> (Panic, w1)))"

section \<open>Auxiliary definitions\<close>

text \<open>The effect of a successful \<open>CreateOrPatch\<close> on a store, as a function of the
  store alone.\<close>

definition upsert :: "object \<Rightarrow> (object \<Rightarrow> bool \<Rightarrow> object option) \<Rightarrow> object list \<Rightarrow> object list" where
  "upsert obj tr s =
     (case lookup (keyOf obj) s of
        None \<Rightarrow> (case tr obj True of None \<Rightarrow> s | Some md \<Rightarrow> s @ [md])
      | Some cur \<Rightarrow> (case tr cur False of None \<Rightarrow> s | Some md \<Rightarrow> replace md s))"

text \<open>Predicates on the calls of a trace, and the calls a run has added to the trace.\<close>

fun isUpdate :: "client \<times> call \<Rightarrow> bool" where
  "isUpdate (c, OpUpdate ob) = True"
| "isUpdate (c, other) = False"

fun isListOrDelete :: "client \<times> call \<Rightarrow> bool" where
  "isListOrDelete (c, OpList kd ls) = (c = SpokeClient)"
| "isListOrDelete (c, OpDelete ob) = (c = SpokeClient)"
| "isListOrDelete (c, other) = False"

definition calls_since :: "world \<Rightarrow> world \<Rightarrow> (client \<times> call) list" where
  "calls_since w w' = drop (length (trace w)) (trace w')"

text \<open>What a cleanup sweep may do to a world: the hub store stays, the spoke store loses
  objects at most, and the trace grows by list and delete calls of the spoke client.\<close>

definition sweeps_from :: "world \<Rightarrow> world \<Rightarrow> bool" where
  "sweeps_from w w' =
     (hub w' = hub w \<and> set (spoke w') \<subseteq> set (spoke w)
      \<and> (\<exists>cs. trace w' = trace w @ cs \<and> list_all isListOrDelete cs))"

text \<open>Properties of a mutator: it keeps the identity of the object and is idempotent; it
  accepts every object of a kind.  A desired object is settled in a store when the store
  holds its identity with an object the mutator leaves as it is.\<close>

definition keeps_key :: "(object \<Rightarrow> bool \<Rightarrow> object option) \<Rightarrow> bool" where
  "keeps_key tr = (\<forall>ob b md. tr ob b = Some md \<longrightarrow> keyOf md = keyOf ob \<and> (\<forall>b'. tr md b' = Some md))"

definition accepts :: "kind \<Rightarrow> (object \<Rightarrow> bool \<Rightarrow> object option) \<Rightarrow> bool" where
  "accepts kd tr = (\<forall>ob b. kindOf ob = kd \<longrightarrow> tr ob b \<noteq> None)"

definition settled :: "object \<Rightarrow> (object \<Rightarrow> bool \<Rightarrow> object option) \<Rightarrow> object list \<Rightarrow> bool" where
  "settled obj tr s = (case lookup (keyOf obj) s of None \<Rightarrow> False | Some m \<Rightarrow> tr m False = Some m)"

text \<open>The effect of a successful run of the materializer on the spoke store.\<close>

fun upsertNamespaces ::
  "string \<Rightarrow> ManagedClusterRoleBinding \<Rightarrow> string list \<Rightarrow> object list \<Rightarrow> object list" where
  "upsertNamespaces userName managedCRB [] s = s"
| "upsertNamespaces userName managedCRB (ns # rest) s =
     upsertNamespaces userName managedCRB rest
       (upsert (RB (givenRolebinding userName managedCRB ns))
          (mutateRoleBinding (givenRolebinding userName managedCRB ns)) s)"

definition materialized ::
  "string \<Rightarrow> string \<Rightarrow> ManagedClusterRoleBinding \<Rightarrow> object list \<Rightarrow> object list" where
  "materialized userName hubOwnerID managedCRB s =
     (let s1 = upsert (CR (cr userName hubOwnerID managedCRB))
                 (mutateClusterRole (cr userName hubOwnerID managedCRB)) s;
          s2 = upsert (CRB (crb userName hubOwnerID managedCRB))
                 (mutateClusterRoleBinding (crb userName hubOwnerID managedCRB)) s1
      in case cref_Namespaces (mcrb_RoleRef managedCRB) of
           None \<Rightarrow>
             upsert (CRB (givenClusterRolebinding userName managedCRB))
               (mutateClusterRoleBinding (givenClusterRolebinding userName managedCRB)) s2
         | Some nss \<Rightarrow> upsertNamespaces userName managedCRB nss s2)"

section \<open>Concrete scenarios\<close>

text \<open>A fault schedule without faults, three where every delete, every list or every
  patch call fails, one where the delete of every ClusterRoleBinding fails, a choice of
  the two imported names, and the Grants and worlds at which the theorems below are
  evaluated.\<close>

definition no_faults :: faults where
  "no_faults n c op = None"

definition deps0 :: deps where
  "deps0 = \<lparr> SpokeAuthorizationFinalizer = ''spoke-authorization'',
             GetUserIDAndHubOwnerIDFromLabelValues = (\<lambda>m. ('''', ''hub1'')) \<rparr>"

definition empty_world :: world where
  "empty_world = \<lparr> hub = [], spoke = [], trace = [] \<rparr>"

definition grant ::
  "string \<Rightarrow> string \<Rightarrow> string \<Rightarrow> string list option \<Rightarrow> string list \<Rightarrow> nat option
     \<Rightarrow> ManagedClusterRoleBinding" where
  "grant name user role nss fins del =
     \<lparr> mcrb_ObjectMeta =
         \<lparr> Name = name, Namespace = '''', Labels = [(''app'', name)],
           Finalizers = fins, DeletionTimestamp = del \<rparr>,
       mcrb_Subjects =
         [\<lparr> sub_APIGroup = GroupName, sub_Kind = ''User'', sub_Name = user, sub_Namespace = '''' \<rparr>],
       mcrb_RoleRef = \<lparr> cref_Name = role, cref_Namespaces = nss \<rparr> \<rparr>"

definition grant_without_subject :: ManagedClusterRoleBinding where
  "grant_without_subject =
     (grant ''g1'' ''alice'' ''viewer'' None [''spoke-authorization''] (Some 1))\<lparr>mcrb_Subjects := []\<rparr>"

definition world_without_subject :: world where
  "world_without_subject = \<lparr> hub = [MCRB grant_without_subject], spoke = [], trace = [] \<rparr>"

definition terminating_grant :: ManagedClusterRoleBinding where
  "terminating_grant = grant ''g1'' ''alice'' ''viewer'' None [''spoke-authorization''] (Some 1)"

definition terminating_world :: world where
  "terminating_world =
     \<lparr> hub = [MCRB terminating_grant],
       spoke = [MCRB terminating_grant,
                CR (cr ''alice'' ''hub1'' terminating_grant),
                CRB (crb ''alice'' ''hub1'' terminating_grant),
                CRB (givenClusterRolebinding ''alice'' terminating_grant)],
       trace = [] \<rparr>"

definition terminating_scoped_grant :: ManagedClusterRoleBinding where
  "terminating_scoped_grant =
     grant ''g1'' ''alice'' ''viewer'' (Some [''a'']) [''spoke-authorization''] (Some 1)"

definition terminating_scoped_world :: world where
  "terminating_scoped_world =
     \<lparr> hub = [MCRB terminating_scoped_grant],
       spoke = [MCRB terminating_scoped_grant,
                CR (cr ''alice'' ''hub1'' terminating_scoped_grant),
                CRB (crb ''alice'' ''hub1'' terminating_scoped_grant),
                RB (givenRolebinding ''alice'' terminating_scoped_grant ''a'')],
       trace = [] \<rparr>"

fun delete_faults :: faults where
  "delete_faults n c (OpDelete ob) = Some (StoreError ''delete failed'')"
| "delete_faults n c other = None"

fun list_faults :: faults where
  "list_faults n c (OpList kd ls) = Some (StoreError ''list failed'')"
| "list_faults n c other = None"

fun patch_faults :: faults where
  "patch_faults n c (OpPatch ob) = Some (StoreError ''patch failed'')"
| "patch_faults n c other = None"

fun binding_delete_faults :: faults where
  "binding_delete_faults n c (OpDelete (CRB x)) = Some (StoreError ''delete failed'')"
| "binding_delete_faults n c other = None"

definition new_grant :: ManagedClusterRoleBinding where
  "new_grant = grant ''g1'' ''alice'' ''viewer'' None [] None"

definition new_grant_world :: world where
  "new_grant_world = \<lparr> hub = [MCRB new_grant], spoke = [], trace = [] \<rparr>"

definition active_grant :: ManagedClusterRoleBinding where
  "active_grant = grant ''g1'' ''alice'' ''viewer'' None [''spoke-authorization''] None"

definition second_grant :: ManagedClusterRoleBinding where
  "second_grant = grant ''g2'' ''alice'' ''editor'' None [''spoke-authorization''] None"

definition two_grants_world :: world where
  "two_grants_world = \<lparr> hub = [MCRB active_grant, MCRB second_grant], spoke = [], trace = [] \<rparr>"

definition active_world :: world where
  "active_world = \<lparr> hub = [MCRB active_grant], spoke = [], trace = [] \<rparr>"

definition scoped_grant :: ManagedClusterRoleBinding where
  "scoped_grant =
     grant ''g1'' ''alice'' ''viewer'' (Some [''a'', ''b'', ''c'']) [''spoke-authorization''] None"

definition scoped_world :: world where
  "scoped_world = \<lparr> hub = [MCRB scoped_grant], spoke = [], trace = [] \<rparr>"

section \<open>Lemmas\<close>

named_theorems run_defs

lemmas [run_defs] =
  Reconcile_def client_Get_def client_List_def client_Create_def client_Patch_def
  client_Update_def client_Delete_def CreateOrPatch_def materialize_def
  addFinalizerIfNeeded_def deleteAssociatedResources_def sweepKind_def
  record_call_def store_def set_store_def lookup_def remove_def keyOf_def GetLabels_def
  SelectorFromSet_def ContainsFinalizer_def AddFinalizer_def RemoveFinalizer_def
  cr_def crb_def sub_def givenClusterRolebinding_def givenRolebinding_def
  mutateClusterRole_def mutateClusterRoleBinding_def mutateRoleBinding_def GroupName_def
  no_faults_def deps0_def empty_world_def grant_def Let_def

subsection \<open>Stores\<close>

lemma hub_record_call [simp]: "hub (record_call c op w) = hub w"
  by (simp add: record_call_def)

lemma spoke_record_call [simp]: "spoke (record_call c op w) = spoke w"
  by (simp add: record_call_def)

lemma trace_record_call [simp]: "trace (record_call c op w) = trace w @ [(c, op)]"
  by (simp add: record_call_def)

lemma store_simps [simp]: "store HubClient w = hub w" "store SpokeClient w = spoke w"
  by (simp_all add: store_def)

lemma set_store_spoke [simp]:
  "hub (set_store SpokeClient s w) = hub w"
  "spoke (set_store SpokeClient s w) = s"
  "trace (set_store c s w) = trace w"
  by (simp_all add: set_store_def split: client.splits)

lemma kindOf_keyOf: "kindOf ob = fst (keyOf ob)"
  by (simp add: keyOf_def)

lemma lookup_Some: "lookup k s = Some ob \<Longrightarrow> keyOf ob = k \<and> ob \<in> set s"
  unfolding lookup_def by (auto simp: find_Some_iff)

lemma lookup_None: "lookup k s = None \<longleftrightarrow> (\<forall>ob \<in> set s. keyOf ob \<noteq> k)"
  unfolding lookup_def by (auto simp: find_None_iff)

lemma lookup_replace:
  "lookup k (replace new s) = (if k = keyOf new \<and> lookup k s \<noteq> None then Some new else lookup k s)"
  by (induction s) (auto simp: lookup_def)

lemma lookup_append:
  "lookup k (s @ [ob]) =
     (case lookup k s of Some x \<Rightarrow> Some x | None \<Rightarrow> if keyOf ob = k then Some ob else None)"
  by (induction s) (auto simp: lookup_def)

lemma lookup_remove: "lookup k (remove k' s) = (if k = k' then None else lookup k s)"
  by (induction s) (auto simp: lookup_def remove_def)

lemma replace_same: "lookup (keyOf m) s = Some m \<Longrightarrow> replace m s = s"
  by (induction s) (auto simp: lookup_def split: if_splits)

lemma replace_replace: "keyOf a = keyOf b \<Longrightarrow> replace a (replace b s) = replace a s"
  by (induction s) auto


subsection \<open>Client calls\<close>

lemma client_Get_Inl:
  "client_Get fl c k w = (Inl e, w') \<Longrightarrow> w' = record_call c (OpGet k) w"
  by (auto simp: client_Get_def Let_def split: option.splits)

lemma client_Get_Inr:
  "client_Get fl c k w = (Inr ob, w') \<Longrightarrow>
     w' = record_call c (OpGet k) w \<and> lookup k (store c w) = Some ob"
  by (auto simp: client_Get_def Let_def split: option.splits)

lemma client_Create_Some:
  "client_Create fl c ob w = (Some e, w') \<Longrightarrow> w' = record_call c (OpCreate ob) w"
  by (auto simp: client_Create_def Let_def split: option.splits)

lemma client_Create_None:
  "client_Create fl SpokeClient ob w = (None, w') \<Longrightarrow>
     w' = set_store SpokeClient (spoke w @ [ob]) (record_call SpokeClient (OpCreate ob) w)
     \<and> lookup (keyOf ob) (spoke w) = None"
  by (auto simp: client_Create_def Let_def split: option.splits)

lemma client_Patch_Some:
  "client_Patch fl c ob w = (Some e, w') \<Longrightarrow> w' = record_call c (OpPatch ob) w"
  by (auto simp: client_Patch_def Let_def split: option.splits)

lemma client_Patch_None:
  "client_Patch fl SpokeClient ob w = (None, w') \<Longrightarrow>
     w' = set_store SpokeClient (replace ob (spoke w)) (record_call SpokeClient (OpPatch ob) w)
     \<and> lookup (keyOf ob) (spoke w) \<noteq> None"
  by (auto simp: client_Patch_def Let_def split: option.splits)

lemma client_Update_Some:
  "client_Update fl c ob w = (Some e, w') \<Longrightarrow> w' = record_call c (OpUpdate ob) w"
  by (auto simp: client_Update_def Let_def split: option.splits)

lemma client_Update_None:
  "client_Update fl SpokeClient ob w = (None, w') \<Longrightarrow>
     w' = set_store SpokeClient (replace ob (spoke w)) (record_call SpokeClient (OpUpdate ob) w)
     \<and> lookup (keyOf ob) (spoke w) \<noteq> None"
  by (auto simp: client_Update_def Let_def split: option.splits)

lemma client_Delete_Some:
  "client_Delete fl c ob w = (Some e, w') \<Longrightarrow> w' = record_call c (OpDelete ob) w"
  by (auto simp: client_Delete_def Let_def split: option.splits)

lemma client_Delete_None:
  "client_Delete fl SpokeClient ob w = (None, w') \<Longrightarrow>
     w' = set_store SpokeClient (remove (keyOf ob) (spoke w)) (record_call SpokeClient (OpDelete ob) w)"
  by (auto simp: client_Delete_def Let_def split: option.splits)

subsection \<open>The synchronizer\<close>

lemma CreateOrPatch_OK:
  assumes ok: "CreateOrPatch fl SpokeClient obj tr w = (OK, w')"
    and kk: "\<And>ob b md. tr ob b = Some md \<Longrightarrow> keyOf md = keyOf ob"
  shows "spoke w' = upsert obj tr (spoke w) \<and> hub w' = hub w"
proof (cases "client_Get fl SpokeClient (keyOf obj) w")
  case (Pair r w1)
  show ?thesis
  proof (cases r)
    case (Inl e)
    with Pair have w1: "w1 = record_call SpokeClient (OpGet (keyOf obj)) w"
      using client_Get_Inl by blast
    from ok Pair Inl obtain md where e: "e = NotFound" and md: "tr obj True = Some md"
      and cr: "client_Create fl SpokeClient md w1 = (None, w')"
      by (auto simp: CreateOrPatch_def split: error.splits option.splits prod.splits)
    from client_Create_None[OF cr] kk[OF md] w1 md show ?thesis
      by (simp add: upsert_def)
  next
    case (Inr cur)
    with Pair have w1: "w1 = record_call SpokeClient (OpGet (keyOf obj)) w"
      and cur: "lookup (keyOf obj) (spoke w) = Some cur"
      using client_Get_Inr[of fl SpokeClient "keyOf obj" w cur w1] by simp_all
    from ok Pair Inr obtain md where md: "tr cur False = Some md"
      and pa: "client_Patch fl SpokeClient md w1 = (None, w')"
      by (auto simp: CreateOrPatch_def split: option.splits prod.splits)
    from client_Patch_None[OF pa] w1 md cur show ?thesis
      by (simp add: upsert_def)
  qed
qed

lemma CreateOrPatch_no_Panic:
  assumes "\<And>ob b. kindOf ob = kindOf obj \<Longrightarrow> tr ob b \<noteq> None"
  shows "fst (CreateOrPatch fl c obj tr w) \<noteq> Panic"
proof (cases "client_Get fl c (keyOf obj) w")
  case (Pair r w1)
  show ?thesis
  proof (cases r)
    case (Inl e)
    with Pair assms[of obj True] show ?thesis
      by (auto simp: CreateOrPatch_def split: error.splits option.splits prod.splits)
  next
    case (Inr cur)
    with Pair have "keyOf cur = keyOf obj"
      using client_Get_Inr[of fl c "keyOf obj" w cur w1] lookup_Some by blast
    then have "kindOf cur = kindOf obj" by (simp add: kindOf_keyOf)
    with Pair Inr assms[of cur False] show ?thesis
      by (auto simp: CreateOrPatch_def split: option.splits prod.splits)
  qed
qed

lemma mutateClusterRole_total: "kindOf ob = ClusterRoleKind \<Longrightarrow> mutateClusterRole want ob b \<noteq> None"
  by (cases ob) (simp_all add: mutateClusterRole_def)

lemma mutateClusterRoleBinding_total:
  "kindOf ob = ClusterRoleBindingKind \<Longrightarrow> mutateClusterRoleBinding want ob b \<noteq> None"
  by (cases ob) (simp_all add: mutateClusterRoleBinding_def)

lemma mutateRoleBinding_total: "kindOf ob = RoleBindingKind \<Longrightarrow> mutateRoleBinding want ob b \<noteq> None"
  by (cases ob) (simp_all add: mutateRoleBinding_def)

lemma rangeNamespaces_no_Panic: "fst (rangeNamespaces fl u m nss w) \<noteq> Panic"
proof (induction nss arbitrary: w)
  case Nil
  show ?case by simp
next
  case (Cons ns rest)
  have np: "fst (CreateOrPatch fl SpokeClient (RB (givenRolebinding u m ns))
             (mutateRoleBinding (givenRolebinding u m ns)) w) \<noteq> Panic"
    by (rule CreateOrPatch_no_Panic) (simp add: mutateRoleBinding_total)
  show ?case
  proof (cases "CreateOrPatch fl SpokeClient (RB (givenRolebinding u m ns))
             (mutateRoleBinding (givenRolebinding u m ns)) w")
    case (Pair r w')
    with np Cons.IH[of w'] show ?thesis
      by (cases r) simp_all
  qed
qed

lemma materialize_no_Panic: "fst (materialize fl u h m w) \<noteq> Panic"
proof -
  let ?s1 = "CreateOrPatch fl SpokeClient (CR (cr u h m)) (mutateClusterRole (cr u h m)) w"
  have n1: "fst ?s1 \<noteq> Panic"
    by (rule CreateOrPatch_no_Panic) (simp add: mutateClusterRole_total)
  obtain r1 w1 where s1: "?s1 = (r1, w1)" by (cases ?s1)
  let ?s2 = "CreateOrPatch fl SpokeClient (CRB (crb u h m)) (mutateClusterRoleBinding (crb u h m)) w1"
  have n2: "fst ?s2 \<noteq> Panic"
    by (rule CreateOrPatch_no_Panic) (simp add: mutateClusterRoleBinding_total)
  obtain r2 w2 where s2: "?s2 = (r2, w2)" by (cases ?s2)
  have n3: "fst (CreateOrPatch fl SpokeClient (CRB (givenClusterRolebinding u m))
             (mutateClusterRoleBinding (givenClusterRolebinding u m)) w2) \<noteq> Panic"
    by (rule CreateOrPatch_no_Panic) (simp add: mutateClusterRoleBinding_total)
  show ?thesis
    using n1 n2 n3 s1 s2 rangeNamespaces_no_Panic[of fl u m _ w2]
    by (cases r1; cases r2) (auto simp: materialize_def split: option.splits)
qed

lemma sweeps_from_refl: "sweeps_from w w"
  by (simp add: sweeps_from_def)

lemma sweeps_from_trans: "sweeps_from w w1 \<Longrightarrow> sweeps_from w1 w2 \<Longrightarrow> sweeps_from w w2"
  by (auto simp: sweeps_from_def)

lemma sweeps_from_call:
  "isListOrDelete (SpokeClient, op) \<Longrightarrow> sweeps_from w (record_call SpokeClient op w)"
  by (simp add: sweeps_from_def)

lemma set_remove: "set (remove k s) \<subseteq> set s"
  by (auto simp: remove_def)

lemma client_Delete_sweeps: "client_Delete fl SpokeClient x w = (r, w') \<Longrightarrow> sweeps_from w w'"
  by (cases r) (auto simp: sweeps_from_def remove_def dest!: client_Delete_None client_Delete_Some)

lemma deleteItems_sweeps: "deleteItems fl items w = (r, w') \<Longrightarrow> sweeps_from w w'"
proof (induction items arbitrary: w)
  case Nil
  then show ?case by (simp add: sweeps_from_refl)
next
  case (Cons x xs)
  obtain r1 w1 where d: "client_Delete fl SpokeClient x w = (r1, w1)"
    by (cases "client_Delete fl SpokeClient x w")
  show ?case
  proof (cases r1)
    case None
    with Cons.prems d have "deleteItems fl xs w1 = (r, w')" by simp
    from sweeps_from_trans[OF client_Delete_sweeps[OF d] Cons.IH[OF this]] show ?thesis .
  next
    case (Some e)
    with Cons.prems d have "w' = w1" by simp
    with client_Delete_sweeps[OF d] show ?thesis by simp
  qed
qed


lemma deleteItems_Some_last:
  "deleteItems fl items w = (Some e, w') \<Longrightarrow>
     \<exists>x. trace w' \<noteq> [] \<and> last (trace w') = (SpokeClient, OpDelete x)"
proof (induction items arbitrary: w)
  case Nil
  then show ?case by simp
next
  case (Cons x xs)
  obtain r1 w1 where d: "client_Delete fl SpokeClient x w = (r1, w1)"
    by (cases "client_Delete fl SpokeClient x w")
  show ?case
  proof (cases r1)
    case None
    with Cons.prems d have "deleteItems fl xs w1 = (Some e, w')" by simp
    from Cons.IH[OF this] show ?thesis .
  next
    case (Some e1)
    with Cons.prems d have "w' = w1" by simp
    with client_Delete_Some[OF d[unfolded Some]] show ?thesis by auto
  qed
qed

lemma client_List_Inl:
  "client_List fl c kd ls w = (Inl e, w') \<Longrightarrow> w' = record_call c (OpList kd ls) w"
  by (auto simp: client_List_def Let_def split: option.splits)

lemma client_List_Inr:
  "client_List fl c kd ls w = (Inr items, w') \<Longrightarrow>
     w' = record_call c (OpList kd ls) w
     \<and> items = filter (\<lambda>ob. kindOf ob = kd \<and> SelectorFromSet ls (GetLabels ob)) (store c w)"
  by (auto simp: client_List_def Let_def split: option.splits)


lemma sweepKind_sweeps: "sweepKind fl kd ls w = (r, w') \<Longrightarrow> sweeps_from w w'"
proof (cases "client_List fl SpokeClient kd ls w")
  case (Pair res w1)
  assume a: "sweepKind fl kd ls w = (r, w')"
  show ?thesis
  proof (cases res)
    case (Inl e)
    with Pair a client_List_Inl[of fl SpokeClient kd ls w e w1] show ?thesis
      by (simp add: sweepKind_def sweeps_from_call)
  next
    case (Inr items)
    with Pair client_List_Inr[of fl SpokeClient kd ls w items w1]
    have w1: "sweeps_from w w1" by (simp add: sweeps_from_call)
    from a Pair Inr have "deleteItems fl items w1 = (r, w')" by (simp add: sweepKind_def)
    from sweeps_from_trans[OF w1 deleteItems_sweeps[OF this]] show ?thesis .
  qed
qed

lemma sweepKind_Some_last:
  assumes "sweepKind fl kd ls w = (Some e, w')"
  shows "\<exists>x. trace w' \<noteq> [] \<and> last (trace w') = (SpokeClient, OpDelete x)"
proof (cases "client_List fl SpokeClient kd ls w")
  case (Pair res w1)
  with assms show ?thesis
    by (cases res) (auto simp: sweepKind_def dest: deleteItems_Some_last)
qed


lemma deleteAssociatedResources_sweeps:
  assumes "deleteAssociatedResources fl g w = (r, w')"
  shows "sweeps_from w w'"
proof -
  let ?ls = "Labels (mcrb_ObjectMeta g)"
  obtain r1 w1 where s1: "sweepKind fl ServiceAccountKind ?ls w = (r1, w1)"
    by (cases "sweepKind fl ServiceAccountKind ?ls w")
  obtain r2 w2 where s2: "sweepKind fl ClusterRoleKind ?ls w1 = (r2, w2)"
    by (cases "sweepKind fl ClusterRoleKind ?ls w1")
  obtain r3 w3 where s3: "sweepKind fl ClusterRoleBindingKind ?ls w2 = (r3, w3)"
    by (cases "sweepKind fl ClusterRoleBindingKind ?ls w2")
  note a = sweepKind_sweeps[OF s1] sweepKind_sweeps[OF s2] sweepKind_sweeps[OF s3]
  from assms s1 s2 s3 have "w' = w1 \<or> w' = w2 \<or> w' = w3"
    by (auto simp: deleteAssociatedResources_def split: option.splits)
  with a show ?thesis
    using sweeps_from_trans by blast
qed


lemma sweeps_from_length: "sweeps_from w w' \<Longrightarrow> length (trace w) \<le> length (trace w')"
  by (auto simp: sweeps_from_def)


lemmas [run_defs] =
  terminating_grant_def terminating_world_def terminating_scoped_grant_def
  terminating_scoped_world_def

lemma isListOrDelete_no_update: "list_all isListOrDelete cs \<Longrightarrow> filter isUpdate cs = []"
proof (induction cs)
  case Nil
  show ?case by simp
next
  case (Cons x cs)
  obtain c op where "x = (c, op)" by (cases x)
  with Cons show ?case by (cases op) simp_all
qed

lemma sweeps_from_no_update:
  "sweeps_from w w' \<Longrightarrow> filter isUpdate (calls_since w w') = []"
  by (auto simp: sweeps_from_def calls_since_def isListOrDelete_no_update)

lemma calls_since_Get:
  "calls_since w (record_call c op w) = [(c, op)]"
  by (simp add: calls_since_def)

lemma calls_since_trans:
  "sweeps_from w1 w2 \<Longrightarrow> length (trace w) \<le> length (trace w1) \<Longrightarrow>
     calls_since w w2 = calls_since w w1 @ calls_since w1 w2"
  by (auto simp: sweeps_from_def calls_since_def)

lemma Reconcile_terminating:
  assumes get: "client_Get fl HubClient (ManagedClusterRoleBindingKind, req) w = (Inr (MCRB g), w1)"
    and sub: "mcrb_Subjects g \<noteq> []"
    and del: "DeletionTimestamp (mcrb_ObjectMeta g) \<noteq> None"
    and fin: "ContainsFinalizer g (SpokeAuthorizationFinalizer d)"
  shows "Reconcile d fl req w =
           (case deleteAssociatedResources fl g w1 of
              (Some e, w2) \<Rightarrow> (Err e, w2)
            | (None, w2) \<Rightarrow>
                (case client_Update fl SpokeClient
                        (MCRB (RemoveFinalizer g (SpokeAuthorizationFinalizer d))) w2 of
                   (Some e, w3) \<Rightarrow> (Err e, w3)
                 | (None, w3) \<Rightarrow> (OK, w3)))"
  using assms by (cases "mcrb_Subjects g") (simp_all add: Reconcile_def Let_def)

lemmas [run_defs] =
  new_grant_def new_grant_world_def active_grant_def second_grant_def two_grants_world_def

lemma mutateClusterRole_eq:
  "kindOf ob = ClusterRoleKind \<Longrightarrow>
     mutateClusterRole want ob b =
       Some (CR \<lparr>cr_ObjectMeta = GetObjectMeta ob, cr_Rules = cr_Rules want\<rparr>)"
  by (cases ob) (simp_all add: mutateClusterRole_def)

lemma mutateClusterRoleBinding_eq:
  "kindOf ob = ClusterRoleBindingKind \<Longrightarrow>
     mutateClusterRoleBinding want ob b =
       Some (CRB \<lparr>crb_ObjectMeta = GetObjectMeta ob, crb_Subjects = crb_Subjects want,
                  crb_RoleRef = crb_RoleRef want\<rparr>)"
  by (cases ob) (simp_all add: mutateClusterRoleBinding_def)

lemma mutateRoleBinding_eq:
  "kindOf ob = RoleBindingKind \<Longrightarrow>
     mutateRoleBinding want ob b =
       Some (RB \<lparr>rb_ObjectMeta = GetObjectMeta ob, rb_Subjects = rb_Subjects want,
                 rb_RoleRef = rb_RoleRef want\<rparr>)"
  by (cases ob) (simp_all add: mutateRoleBinding_def)

lemma mutateClusterRole_Some:
  "mutateClusterRole want ob b = Some md \<Longrightarrow> kindOf ob = ClusterRoleKind"
  by (cases ob) (simp_all add: mutateClusterRole_def)

lemma mutateClusterRoleBinding_Some:
  "mutateClusterRoleBinding want ob b = Some md \<Longrightarrow> kindOf ob = ClusterRoleBindingKind"
  by (cases ob) (simp_all add: mutateClusterRoleBinding_def)

lemma mutateRoleBinding_Some:
  "mutateRoleBinding want ob b = Some md \<Longrightarrow> kindOf ob = RoleBindingKind"
  by (cases ob) (simp_all add: mutateRoleBinding_def)

lemma keeps_key_mutateClusterRole: "keeps_key (mutateClusterRole want)"
  unfolding keeps_key_def
proof (intro allI impI)
  fix ob b md
  assume a: "mutateClusterRole want ob b = Some md"
  from mutateClusterRole_Some[OF a] have k: "kindOf ob = ClusterRoleKind" .
  from a mutateClusterRole_eq[OF k, of want b]
  have md: "md = CR \<lparr>cr_ObjectMeta = GetObjectMeta ob, cr_Rules = cr_Rules want\<rparr>"
    by simp
  show "keyOf md = keyOf ob \<and> (\<forall>b'. mutateClusterRole want md b' = Some md)"
    using k by (simp add: md keyOf_def mutateClusterRole_def)
qed

lemma keeps_key_mutateClusterRoleBinding: "keeps_key (mutateClusterRoleBinding want)"
  unfolding keeps_key_def
proof (intro allI impI)
  fix ob b md
  assume a: "mutateClusterRoleBinding want ob b = Some md"
  from mutateClusterRoleBinding_Some[OF a] have k: "kindOf ob = ClusterRoleBindingKind" .
  from a mutateClusterRoleBinding_eq[OF k, of want b]
  have md: "md = CRB \<lparr>crb_ObjectMeta = GetObjectMeta ob, crb_Subjects = crb_Subjects want,
                  crb_RoleRef = crb_RoleRef want\<rparr>"
    by simp
  show "keyOf md = keyOf ob \<and> (\<forall>b'. mutateClusterRoleBinding want md b' = Some md)"
    using k by (simp add: md keyOf_def mutateClusterRoleBinding_def)
qed

lemma keeps_key_mutateRoleBinding: "keeps_key (mutateRoleBinding want)"
  unfolding keeps_key_def
proof (intro allI impI)
  fix ob b md
  assume a: "mutateRoleBinding want ob b = Some md"
  from mutateRoleBinding_Some[OF a] have k: "kindOf ob = RoleBindingKind" .
  from a mutateRoleBinding_eq[OF k, of want b]
  have md: "md = RB \<lparr>rb_ObjectMeta = GetObjectMeta ob, rb_Subjects = rb_Subjects want,
                 rb_RoleRef = rb_RoleRef want\<rparr>"
    by simp
  show "keyOf md = keyOf ob \<and> (\<forall>b'. mutateRoleBinding want md b' = Some md)"
    using k by (simp add: md keyOf_def mutateRoleBinding_def)
qed

lemma accepts_mutateClusterRole: "accepts ClusterRoleKind (mutateClusterRole want)"
  by (simp add: accepts_def mutateClusterRole_eq)

lemma accepts_mutateClusterRoleBinding:
  "accepts ClusterRoleBindingKind (mutateClusterRoleBinding want)"
  by (simp add: accepts_def mutateClusterRoleBinding_eq)

lemma accepts_mutateRoleBinding: "accepts RoleBindingKind (mutateRoleBinding want)"
  by (simp add: accepts_def mutateRoleBinding_eq)

lemma keeps_keyD: "keeps_key tr \<Longrightarrow> tr ob b = Some md \<Longrightarrow> keyOf md = keyOf ob"
  by (simp add: keeps_key_def)

lemma keeps_key_fix: "keeps_key tr \<Longrightarrow> tr ob b = Some md \<Longrightarrow> tr md b' = Some md"
  by (simp add: keeps_key_def)

lemma acceptsD: "accepts kd tr \<Longrightarrow> kindOf ob = kd \<Longrightarrow> \<exists>md. tr ob b = Some md"
  by (auto simp: accepts_def)

lemma lookup_kind: "lookup (keyOf obj) s = Some cur \<Longrightarrow> kindOf cur = kindOf obj"
  by (auto dest!: lookup_Some simp: kindOf_keyOf)

lemma CreateOrPatch_upsert:
  assumes "CreateOrPatch fl SpokeClient obj tr w = (OK, w')" and "keeps_key tr"
  shows "spoke w' = upsert obj tr (spoke w)" and "hub w' = hub w"
  using CreateOrPatch_OK[OF assms(1)] assms(2) by (auto simp: keeps_key_def)

lemma lookup_upsert_other:
  assumes kk: "keeps_key tr" and ne: "k \<noteq> keyOf obj"
  shows "lookup k (upsert obj tr s) = lookup k s"
proof (cases "lookup (keyOf obj) s")
  case None
  with ne keeps_keyD[OF kk] show ?thesis
    by (auto simp: upsert_def lookup_append split: option.splits)
next
  case (Some cur)
  then have "keyOf cur = keyOf obj" by (auto dest: lookup_Some)
  with Some ne keeps_keyD[OF kk, of cur False] show ?thesis
    by (auto simp: upsert_def lookup_replace split: option.splits)
qed

lemma lookup_upsert_same:
  assumes kk: "keeps_key tr" and ac: "accepts (kindOf obj) tr"
  shows "lookup (keyOf obj) (upsert obj tr s) =
           (case lookup (keyOf obj) s of None \<Rightarrow> tr obj True | Some cur \<Rightarrow> tr cur False)"
proof (cases "lookup (keyOf obj) s")
  case None
  from acceptsD[OF ac refl, of True] obtain md where md: "tr obj True = Some md" by blast
  with None keeps_keyD[OF kk md] show ?thesis
    by (simp add: upsert_def lookup_append)
next
  case (Some cur)
  from acceptsD[OF ac lookup_kind[OF Some], of False]
  obtain md where md: "tr cur False = Some md" by blast
  from keeps_keyD[OF kk md] Some have "keyOf md = keyOf obj" by (auto dest: lookup_Some)
  with Some md show ?thesis
    by (simp add: upsert_def lookup_replace)
qed

lemma upsert_settled:
  assumes "settled obj tr s"
  shows "upsert obj tr s = s"
proof -
  from assms obtain m where m: "lookup (keyOf obj) s = Some m" and fx: "tr m False = Some m"
    by (auto simp: settled_def split: option.splits)
  from lookup_Some[OF m] have "keyOf m = keyOf obj" by simp
  with m have "replace m s = s" by (simp add: replace_same)
  with m fx show ?thesis by (simp add: upsert_def)
qed

lemma settled_upsert:
  assumes kk: "keeps_key tr" and ac: "accepts (kindOf obj) tr"
  shows "settled obj tr (upsert obj tr s)"
proof -
  have "\<exists>md. lookup (keyOf obj) (upsert obj tr s) = Some md \<and> tr md False = Some md"
  proof (cases "lookup (keyOf obj) s")
    case None
    from acceptsD[OF ac refl, of True] obtain md where md: "tr obj True = Some md" by blast
    with None lookup_upsert_same[OF kk ac, of s] keeps_key_fix[OF kk md] show ?thesis
      by simp
  next
    case (Some cur)
    from acceptsD[OF ac lookup_kind[OF Some], of False]
    obtain md where md: "tr cur False = Some md" by blast
    with Some lookup_upsert_same[OF kk ac, of s] keeps_key_fix[OF kk md] show ?thesis
      by simp
  qed
  then show ?thesis by (auto simp: settled_def)
qed

lemma settled_upsert_other:
  assumes "keeps_key tr'" and "keyOf obj \<noteq> keyOf obj'"
  shows "settled obj tr (upsert obj' tr' s) = settled obj tr s"
  using lookup_upsert_other[OF assms] by (simp add: settled_def)

lemma upsert_absorb:
  assumes key: "keyOf obj' = keyOf obj"
    and kk: "keeps_key tr" and kk': "keeps_key tr'"
    and ac: "accepts (kindOf obj) tr" and ac': "accepts (kindOf obj) tr'"
    and over: "\<And>ob md. tr ob False = Some md \<Longrightarrow> tr' md False = tr' ob False"
    and present: "lookup (keyOf obj) s = Some cur"
  shows "upsert obj' tr' (upsert obj tr s) = upsert obj' tr' s"
proof -
  from acceptsD[OF ac lookup_kind[OF present], of False]
  obtain md where md: "tr cur False = Some md" by blast
  from acceptsD[OF ac' lookup_kind[OF present], of False]
  obtain md' where md': "tr' cur False = Some md'" by blast
  from keeps_keyD[OF kk md] present have kmd: "keyOf md = keyOf obj" by (auto dest: lookup_Some)
  from keeps_keyD[OF kk' md'] present have kmd': "keyOf md' = keyOf obj" by (auto dest: lookup_Some)
  have 1: "upsert obj tr s = replace md s" using present md by (simp add: upsert_def)
  have 2: "lookup (keyOf obj) (replace md s) = Some md"
    using present kmd by (simp add: lookup_replace)
  have 3: "tr' md False = Some md'" using over[OF md] md' by simp
  have "upsert obj' tr' (replace md s) = replace md' (replace md s)"
    using 2 3 key by (simp add: upsert_def)
  also have "\<dots> = replace md' s" using kmd kmd' by (simp add: replace_replace)
  also have "\<dots> = upsert obj' tr' s" using present md' key by (simp add: upsert_def)
  finally show ?thesis using 1 by simp
qed

lemma keyOf_cr [simp]:
  "keyOf (CR (cr u h m)) = (ClusterRoleKind, '''', ''impersonate-'' @ u @ ''-'' @ h)"
  by (simp add: keyOf_def cr_def)

lemma keyOf_crb [simp]:
  "keyOf (CRB (crb u h m)) =
     (ClusterRoleBindingKind, '''', ''impersonate-'' @ u @ ''-'' @ h @ ''-rolebinding'')"
  by (simp add: keyOf_def crb_def)

lemma keyOf_givenClusterRolebinding [simp]:
  "keyOf (CRB (givenClusterRolebinding u m)) =
     (ClusterRoleBindingKind, '''', Name (mcrb_ObjectMeta m))"
  by (simp add: keyOf_def givenClusterRolebinding_def)

lemma keyOf_givenRolebinding [simp]:
  "keyOf (RB (givenRolebinding u m ns)) = (RoleBindingKind, ns, Name (mcrb_ObjectMeta m))"
  by (simp add: keyOf_def givenRolebinding_def)

lemma rangeNamespaces_OK:
  "rangeNamespaces fl u m nss w = (OK, w') \<Longrightarrow>
     spoke w' = upsertNamespaces u m nss (spoke w) \<and> hub w' = hub w"
proof (induction nss arbitrary: w)
  case Nil
  then show ?case by simp
next
  case (Cons ns rest)
  obtain r w1 where st: "CreateOrPatch fl SpokeClient (RB (givenRolebinding u m ns))
             (mutateRoleBinding (givenRolebinding u m ns)) w = (r, w1)"
    by (cases "CreateOrPatch fl SpokeClient (RB (givenRolebinding u m ns))
             (mutateRoleBinding (givenRolebinding u m ns)) w")
  with Cons.prems have r: "r = OK" and rest: "rangeNamespaces fl u m rest w1 = (OK, w')"
    by (cases r; simp)+
  from CreateOrPatch_upsert[OF st[unfolded r] keeps_key_mutateRoleBinding] Cons.IH[OF rest]
  show ?case by simp
qed

lemma materialize_OK:
  assumes "materialize fl u h m w = (OK, w')"
  shows "spoke w' = materialized u h m (spoke w) \<and> hub w' = hub w"
proof -
  obtain r1 w1 where s1: "CreateOrPatch fl SpokeClient (CR (cr u h m))
      (mutateClusterRole (cr u h m)) w = (r1, w1)"
    by (cases "CreateOrPatch fl SpokeClient (CR (cr u h m)) (mutateClusterRole (cr u h m)) w")
  obtain r2 w2 where s2: "CreateOrPatch fl SpokeClient (CRB (crb u h m))
      (mutateClusterRoleBinding (crb u h m)) w1 = (r2, w2)"
    by (cases "CreateOrPatch fl SpokeClient (CRB (crb u h m))
      (mutateClusterRoleBinding (crb u h m)) w1")
  from assms s1 have r1: "r1 = OK" by (cases r1) (simp_all add: materialize_def)
  from assms s1 s2 r1 have r2: "r2 = OK" by (cases r2) (simp_all add: materialize_def)
  note a = CreateOrPatch_upsert[OF s1[unfolded r1] keeps_key_mutateClusterRole]
  note b = CreateOrPatch_upsert[OF s2[unfolded r2] keeps_key_mutateClusterRoleBinding]
  show ?thesis
  proof (cases "cref_Namespaces (mcrb_RoleRef m)")
    case None
    with assms s1 s2 r1 r2
    have "CreateOrPatch fl SpokeClient (CRB (givenClusterRolebinding u m))
            (mutateClusterRoleBinding (givenClusterRolebinding u m)) w2 = (OK, w')"
      by (simp add: materialize_def)
    from CreateOrPatch_upsert[OF this keeps_key_mutateClusterRoleBinding] a b None
    show ?thesis by (simp add: materialized_def)
  next
    case (Some nss)
    with assms s1 s2 r1 r2 have "rangeNamespaces fl u m nss w2 = (OK, w')"
      by (simp add: materialize_def)
    from rangeNamespaces_OK[OF this] a b Some
    show ?thesis by (simp add: materialized_def)
  qed
qed

lemma lookup_upsertNamespaces_other:
  "k \<notin> (\<lambda>ns. (RoleBindingKind, ns, Name (mcrb_ObjectMeta m))) ` set nss \<Longrightarrow>
     lookup k (upsertNamespaces u m nss s) = lookup k s"
proof (induction nss arbitrary: s)
  case Nil
  show ?case by simp
next
  case (Cons ns rest)
  then have "k \<noteq> keyOf (RB (givenRolebinding u m ns))" by auto
  from lookup_upsert_other[OF keeps_key_mutateRoleBinding this] Cons show ?case by simp
qed

lemma settled_upsertNamespaces_other:
  assumes "kindOf obj \<noteq> RoleBindingKind"
  shows "settled obj tr (upsertNamespaces u m nss s) = settled obj tr s"
proof -
  have "keyOf obj \<notin> (\<lambda>ns. (RoleBindingKind, ns, Name (mcrb_ObjectMeta m))) ` set nss"
    using assms by (auto simp: keyOf_def)
  from lookup_upsertNamespaces_other[OF this] show ?thesis by (simp add: settled_def)
qed

lemma settled_RoleBinding_step:
  assumes "settled (RB (givenRolebinding u m ns)) (mutateRoleBinding (givenRolebinding u m ns)) s"
  shows "settled (RB (givenRolebinding u m ns)) (mutateRoleBinding (givenRolebinding u m ns))
           (upsert (RB (givenRolebinding u m ns')) (mutateRoleBinding (givenRolebinding u m ns')) s)"
proof (cases "ns' = ns")
  case True
  then show ?thesis
    using settled_upsert[OF keeps_key_mutateRoleBinding, of "RB (givenRolebinding u m ns)"]
      accepts_mutateRoleBinding by simp
next
  case False
  then have "keyOf (RB (givenRolebinding u m ns)) \<noteq> keyOf (RB (givenRolebinding u m ns'))"
    by simp
  from settled_upsert_other[OF keeps_key_mutateRoleBinding this] assms show ?thesis by simp
qed

lemma settled_RoleBinding_rest:
  "settled (RB (givenRolebinding u m ns)) (mutateRoleBinding (givenRolebinding u m ns)) s \<Longrightarrow>
   settled (RB (givenRolebinding u m ns)) (mutateRoleBinding (givenRolebinding u m ns))
     (upsertNamespaces u m rest s)"
proof (induction rest arbitrary: s)
  case Nil
  then show ?case by simp
next
  case (Cons ns' rest)
  from Cons.IH[OF settled_RoleBinding_step[OF Cons.prems]] show ?case by simp
qed

lemma settled_after_upsertNamespaces:
  "ns \<in> set nss \<Longrightarrow>
   settled (RB (givenRolebinding u m ns)) (mutateRoleBinding (givenRolebinding u m ns))
     (upsertNamespaces u m nss s)"
proof (induction nss arbitrary: s)
  case Nil
  then show ?case by simp
next
  case (Cons n rest)
  show ?case
  proof (cases "ns = n")
    case True
    have "settled (RB (givenRolebinding u m n)) (mutateRoleBinding (givenRolebinding u m n))
            (upsert (RB (givenRolebinding u m n)) (mutateRoleBinding (givenRolebinding u m n)) s)"
      using settled_upsert[OF keeps_key_mutateRoleBinding, of "RB (givenRolebinding u m n)"]
        accepts_mutateRoleBinding by simp
    from settled_RoleBinding_rest[OF this] True show ?thesis by simp
  next
    case False
    with Cons.prems have "ns \<in> set rest" by simp
    from Cons.IH[OF this] show ?thesis by simp
  qed
qed

lemma upsertNamespaces_settled:
  "(\<And>ns. ns \<in> set nss \<Longrightarrow>
      settled (RB (givenRolebinding u m ns)) (mutateRoleBinding (givenRolebinding u m ns)) s) \<Longrightarrow>
   upsertNamespaces u m nss s = s"
proof (induction nss)
  case Nil
  show ?case by simp
next
  case (Cons n rest)
  have "upsert (RB (givenRolebinding u m n)) (mutateRoleBinding (givenRolebinding u m n)) s = s"
    by (rule upsert_settled) (simp add: Cons.prems)
  with Cons show ?case by simp
qed

lemma materialized_idem: "materialized u h m (materialized u h m s) = materialized u h m s"
proof -
  let ?o1 = "CR (cr u h m)" and ?t1 = "mutateClusterRole (cr u h m)"
  let ?o2 = "CRB (crb u h m)" and ?t2 = "mutateClusterRoleBinding (crb u h m)"
  let ?o3 = "CRB (givenClusterRolebinding u m)"
  let ?t3 = "mutateClusterRoleBinding (givenClusterRolebinding u m)"
  let ?s1 = "upsert ?o1 ?t1 s"
  let ?s2 = "upsert ?o2 ?t2 ?s1"
  have st1: "settled ?o1 ?t1 ?s1"
    using settled_upsert[OF keeps_key_mutateClusterRole, of ?o1] accepts_mutateClusterRole
    by simp
  have st1': "settled ?o1 ?t1 ?s2"
    using settled_upsert_other[OF keeps_key_mutateClusterRoleBinding, of ?o1 ?o2] st1 by simp
  have st2: "settled ?o2 ?t2 ?s2"
    using settled_upsert[OF keeps_key_mutateClusterRoleBinding, of ?o2]
      accepts_mutateClusterRoleBinding by simp
  show ?thesis
  proof (cases "cref_Namespaces (mcrb_RoleRef m)")
    case (Some nss)
    let ?s' = "upsertNamespaces u m nss ?s2"
    have a: "settled ?o1 ?t1 ?s'" using st1' by (simp add: settled_upsertNamespaces_other)
    have b: "settled ?o2 ?t2 ?s'" using st2 by (simp add: settled_upsertNamespaces_other)
    have c: "upsertNamespaces u m nss ?s' = ?s'"
      by (rule upsertNamespaces_settled) (rule settled_after_upsertNamespaces)
    from Some upsert_settled[OF a] upsert_settled[OF b] c show ?thesis
      by (simp add: materialized_def)
  next
    case None
    let ?s' = "upsert ?o3 ?t3 ?s2"
    have a: "settled ?o1 ?t1 ?s'"
      using settled_upsert_other[OF keeps_key_mutateClusterRoleBinding, of ?o1 ?o3] st1' by simp
    have c: "settled ?o3 ?t3 ?s'"
      using settled_upsert[OF keeps_key_mutateClusterRoleBinding, of ?o3]
        accepts_mutateClusterRoleBinding by simp
    have "upsert ?o3 ?t3 (upsert ?o2 ?t2 ?s') = ?s'"
    proof (cases "keyOf ?o2 = keyOf ?o3")
      case False
      have "settled ?o2 ?t2 ?s'"
        using settled_upsert_other[OF keeps_key_mutateClusterRoleBinding False] st2 by simp
      from upsert_settled[OF this] upsert_settled[OF c] show ?thesis by simp
    next
      case True
      from c True obtain cur where pr: "lookup (keyOf ?o2) ?s' = Some cur"
        by (auto simp: settled_def split: option.splits)
      have over: "?t3 md False = ?t3 ob False" if "?t2 ob False = Some md" for ob md
      proof -
        from mutateClusterRoleBinding_Some[OF that] have k: "kindOf ob = ClusterRoleBindingKind" .
        with that show ?thesis by (auto simp: mutateClusterRoleBinding_eq)
      qed
      have "upsert ?o3 ?t3 (upsert ?o2 ?t2 ?s') = upsert ?o3 ?t3 ?s'"
        by (rule upsert_absorb[OF True[symmetric] keeps_key_mutateClusterRoleBinding
              keeps_key_mutateClusterRoleBinding _ _ over pr])
           (simp_all add: accepts_mutateClusterRoleBinding)
      with upsert_settled[OF c] show ?thesis by simp
    qed
    with None upsert_settled[OF a] show ?thesis
      by (simp add: materialized_def)
  qed
qed

lemma materialized_settled_cr:
  "settled (CR (cr u h m)) (mutateClusterRole (cr u h m)) (materialized u h m s)"
proof -
  let ?o1 = "CR (cr u h m)" and ?t1 = "mutateClusterRole (cr u h m)"
  let ?s1 = "upsert ?o1 ?t1 s"
  let ?s2 = "upsert (CRB (crb u h m)) (mutateClusterRoleBinding (crb u h m)) ?s1"
  have "settled ?o1 ?t1 ?s1"
    using settled_upsert[OF keeps_key_mutateClusterRole, of ?o1] accepts_mutateClusterRole
    by simp
  then have st: "settled ?o1 ?t1 ?s2"
    using settled_upsert_other[OF keeps_key_mutateClusterRoleBinding, of ?o1 "CRB (crb u h m)"]
    by simp
  show ?thesis
  proof (cases "cref_Namespaces (mcrb_RoleRef m)")
    case None
    with st settled_upsert_other[OF keeps_key_mutateClusterRoleBinding, of ?o1
        "CRB (givenClusterRolebinding u m)"]
    show ?thesis by (simp add: materialized_def)
  next
    case (Some nss)
    with st show ?thesis by (simp add: materialized_def settled_upsertNamespaces_other)
  qed
qed

lemma materialized_settled_crb:
  assumes "cref_Namespaces (mcrb_RoleRef m) = None \<Longrightarrow>
             Name (mcrb_ObjectMeta m) \<noteq> ''impersonate-'' @ u @ ''-'' @ h @ ''-rolebinding''"
  shows "settled (CRB (crb u h m)) (mutateClusterRoleBinding (crb u h m)) (materialized u h m s)"
proof -
  let ?o2 = "CRB (crb u h m)" and ?t2 = "mutateClusterRoleBinding (crb u h m)"
  let ?s1 = "upsert (CR (cr u h m)) (mutateClusterRole (cr u h m)) s"
  let ?s2 = "upsert ?o2 ?t2 ?s1"
  have st: "settled ?o2 ?t2 ?s2"
    using settled_upsert[OF keeps_key_mutateClusterRoleBinding, of ?o2]
      accepts_mutateClusterRoleBinding by simp
  show ?thesis
  proof (cases "cref_Namespaces (mcrb_RoleRef m)")
    case None
    from assms[OF None]
    have "keyOf ?o2 \<noteq> keyOf (CRB (givenClusterRolebinding u m))" by auto
    from settled_upsert_other[OF keeps_key_mutateClusterRoleBinding this] st None
    show ?thesis by (simp add: materialized_def)
  next
    case (Some nss)
    with st show ?thesis by (simp add: materialized_def settled_upsertNamespaces_other)
  qed
qed

lemma materialized_settled_given:
  assumes "cref_Namespaces (mcrb_RoleRef m) = None"
  shows "settled (CRB (givenClusterRolebinding u m))
           (mutateClusterRoleBinding (givenClusterRolebinding u m)) (materialized u h m s)"
  using settled_upsert[OF keeps_key_mutateClusterRoleBinding,
      of "CRB (givenClusterRolebinding u m)"] accepts_mutateClusterRoleBinding assms
  by (simp add: materialized_def)

lemma materialized_settled_rb:
  assumes "cref_Namespaces (mcrb_RoleRef m) = Some nss" and "ns \<in> set nss"
  shows "settled (RB (givenRolebinding u m ns)) (mutateRoleBinding (givenRolebinding u m ns))
           (materialized u h m s)"
  using settled_after_upsertNamespaces[OF assms(2)] assms(1)
  by (simp add: materialized_def)

lemma lookup_materialized_other:
  assumes "k \<noteq> (ClusterRoleKind, '''', ''impersonate-'' @ u @ ''-'' @ h)"
    and "k \<noteq> (ClusterRoleBindingKind, '''', ''impersonate-'' @ u @ ''-'' @ h @ ''-rolebinding'')"
    and "cref_Namespaces (mcrb_RoleRef m) = None \<Longrightarrow>
           k \<noteq> (ClusterRoleBindingKind, '''', Name (mcrb_ObjectMeta m))"
    and "\<And>nss. cref_Namespaces (mcrb_RoleRef m) = Some nss \<Longrightarrow>
           k \<notin> (\<lambda>ns. (RoleBindingKind, ns, Name (mcrb_ObjectMeta m))) ` set nss"
  shows "lookup k (materialized u h m s) = lookup k s"
proof -
  have 1: "lookup k (upsert (CR (cr u h m)) (mutateClusterRole (cr u h m)) s') = lookup k s'" for s'
    using assms(1) by (intro lookup_upsert_other[OF keeps_key_mutateClusterRole]) simp
  have 2: "lookup k (upsert (CRB (crb u h m)) (mutateClusterRoleBinding (crb u h m)) s')
             = lookup k s'" for s'
    using assms(2) by (intro lookup_upsert_other[OF keeps_key_mutateClusterRoleBinding]) simp
  show ?thesis
  proof (cases "cref_Namespaces (mcrb_RoleRef m)")
    case None
    have "lookup k (upsert (CRB (givenClusterRolebinding u m))
            (mutateClusterRoleBinding (givenClusterRolebinding u m)) s') = lookup k s'" for s'
      using assms(3)[OF None]
      by (intro lookup_upsert_other[OF keeps_key_mutateClusterRoleBinding]) simp
    with None 1 2 show ?thesis by (simp add: materialized_def)
  next
    case (Some nss)
    from lookup_upsertNamespaces_other[OF assms(4)[OF Some]] Some 1 2
    show ?thesis by (simp add: materialized_def)
  qed
qed

lemma settled_ClusterRole:
  assumes "settled (CR want) (mutateClusterRole want) s"
  shows "\<exists>x. lookup (keyOf (CR want)) s = Some (CR x) \<and> cr_Rules x = cr_Rules want"
proof -
  from assms obtain mm where l: "lookup (keyOf (CR want)) s = Some mm"
    and f: "mutateClusterRole want mm False = Some mm"
    by (auto simp: settled_def split: option.splits)
  from mutateClusterRole_Some[OF f] f have
    "mm = CR \<lparr>cr_ObjectMeta = GetObjectMeta mm, cr_Rules = cr_Rules want\<rparr>"
    by (simp add: mutateClusterRole_eq)
  with l show ?thesis by (metis ClusterRole.select_convs(2))
qed

lemma settled_ClusterRoleBinding:
  assumes "settled (CRB want) (mutateClusterRoleBinding want) s"
  shows "\<exists>x. lookup (keyOf (CRB want)) s = Some (CRB x)
           \<and> crb_Subjects x = crb_Subjects want \<and> crb_RoleRef x = crb_RoleRef want"
proof -
  from assms obtain mm where l: "lookup (keyOf (CRB want)) s = Some mm"
    and f: "mutateClusterRoleBinding want mm False = Some mm"
    by (auto simp: settled_def split: option.splits)
  from mutateClusterRoleBinding_Some[OF f] f have
    "mm = CRB \<lparr>crb_ObjectMeta = GetObjectMeta mm, crb_Subjects = crb_Subjects want,
               crb_RoleRef = crb_RoleRef want\<rparr>"
    by (simp add: mutateClusterRoleBinding_eq)
  with l show ?thesis
    by (metis ClusterRoleBinding.select_convs(2) ClusterRoleBinding.select_convs(3))
qed

lemma settled_RoleBinding:
  assumes "settled (RB want) (mutateRoleBinding want) s"
  shows "\<exists>x. lookup (keyOf (RB want)) s = Some (RB x)
           \<and> rb_Subjects x = rb_Subjects want \<and> rb_RoleRef x = rb_RoleRef want"
proof -
  from assms obtain mm where l: "lookup (keyOf (RB want)) s = Some mm"
    and f: "mutateRoleBinding want mm False = Some mm"
    by (auto simp: settled_def split: option.splits)
  from mutateRoleBinding_Some[OF f] f have
    "mm = RB \<lparr>rb_ObjectMeta = GetObjectMeta mm, rb_Subjects = rb_Subjects want,
              rb_RoleRef = rb_RoleRef want\<rparr>"
    by (simp add: mutateRoleBinding_eq)
  with l show ?thesis
    by (metis RoleBinding.select_convs(2) RoleBinding.select_convs(3))
qed

lemma AddFinalizer_fields [simp]:
  "Labels (mcrb_ObjectMeta (AddFinalizer g f)) = Labels (mcrb_ObjectMeta g)"
  "Name (mcrb_ObjectMeta (AddFinalizer g f)) = Name (mcrb_ObjectMeta g)"
  "Namespace (mcrb_ObjectMeta (AddFinalizer g f)) = Namespace (mcrb_ObjectMeta g)"
  "mcrb_RoleRef (AddFinalizer g f) = mcrb_RoleRef g"
  "mcrb_Subjects (AddFinalizer g f) = mcrb_Subjects g"
  by (simp_all add: AddFinalizer_def)

lemma desired_AddFinalizer [simp]:
  "cr u h (AddFinalizer g f) = cr u h g"
  "crb u h (AddFinalizer g f) = crb u h g"
  "givenClusterRolebinding u (AddFinalizer g f) = givenClusterRolebinding u g"
  "givenRolebinding u (AddFinalizer g f) ns = givenRolebinding u g ns"
  by (simp_all add: cr_def crb_def givenClusterRolebinding_def givenRolebinding_def)

lemma upsertNamespaces_AddFinalizer:
  "upsertNamespaces u (AddFinalizer g f) nss s = upsertNamespaces u g nss s"
  by (induction nss arbitrary: s) simp_all

lemma materialized_AddFinalizer:
  "materialized u h (AddFinalizer g f) s = materialized u h g s"
  by (simp add: materialized_def upsertNamespaces_AddFinalizer Let_def split: option.splits)

lemma addFinalizerIfNeeded_None:
  assumes "addFinalizerIfNeeded d fl g w = (None, m, w2)"
  shows "m = AddFinalizer g (SpokeAuthorizationFinalizer d)"
    and "hub w2 = hub w"
    and "fst k \<noteq> ManagedClusterRoleBindingKind \<Longrightarrow> lookup k (spoke w2) = lookup k (spoke w)"
    and "ContainsFinalizer g (SpokeAuthorizationFinalizer d) \<Longrightarrow> w2 = w"
proof -
  let ?f = "SpokeAuthorizationFinalizer d"
  show "ContainsFinalizer g ?f \<Longrightarrow> w2 = w"
    using assms by (simp add: addFinalizerIfNeeded_def)
  show "m = AddFinalizer g ?f"
    using assms
    by (auto simp: addFinalizerIfNeeded_def Let_def AddFinalizer_def ContainsFinalizer_def
             split: if_splits prod.splits option.splits)
  show "hub w2 = hub w"
    using assms
    by (auto simp: addFinalizerIfNeeded_def Let_def
             split: if_splits prod.splits option.splits dest!: client_Update_None)
  show "lookup k (spoke w2) = lookup k (spoke w)" if k: "fst k \<noteq> ManagedClusterRoleBindingKind"
  proof (cases "ContainsFinalizer g ?f")
    case True
    with assms show ?thesis by (simp add: addFinalizerIfNeeded_def)
  next
    case False
    with assms have "client_Update fl SpokeClient (MCRB (AddFinalizer g ?f)) w = (None, w2)"
      by (auto simp: addFinalizerIfNeeded_def Let_def split: prod.splits option.splits)
    from client_Update_None[OF this]
    have "spoke w2 = replace (MCRB (AddFinalizer g ?f)) (spoke w)" by simp
    moreover have "k \<noteq> keyOf (MCRB (AddFinalizer g ?f))" using k by (auto simp: keyOf_def)
    ultimately show ?thesis by (simp add: lookup_replace)
  qed
qed

lemma Reconcile_active:
  assumes get: "client_Get fl HubClient (ManagedClusterRoleBindingKind, req) w = (Inr (MCRB g), w1)"
    and sub: "mcrb_Subjects g = s0 # others"
    and del: "DeletionTimestamp (mcrb_ObjectMeta g) = None"
  shows "Reconcile d fl req w =
           (case addFinalizerIfNeeded d fl g w1 of
              (Some e, m, w2) \<Rightarrow> (Err e, w2)
            | (None, m, w2) \<Rightarrow>
                materialize fl (sub_Name s0) (snd (GetUserIDAndHubOwnerIDFromLabelValues d g)) m w2)"
  using assms by (simp add: Reconcile_def Let_def)

lemma Reconcile_active_OK:
  assumes get: "client_Get fl HubClient (ManagedClusterRoleBindingKind, req) w = (Inr (MCRB g), w1)"
    and sub: "mcrb_Subjects g = s0 # others"
    and del: "DeletionTimestamp (mcrb_ObjectMeta g) = None"
    and ok: "Reconcile d fl req w = (OK, w')"
  shows "\<exists>s2. spoke w' =
            materialized (sub_Name s0) (snd (GetUserIDAndHubOwnerIDFromLabelValues d g)) g s2
          \<and> hub w' = hub w
          \<and> (\<forall>k. fst k \<noteq> ManagedClusterRoleBindingKind \<longrightarrow> lookup k s2 = lookup k (spoke w))
          \<and> (ContainsFinalizer g (SpokeAuthorizationFinalizer d) \<longrightarrow> s2 = spoke w)"
proof -
  from client_Get_Inr[OF get]
  have w1: "w1 = record_call HubClient (OpGet (ManagedClusterRoleBindingKind, req)) w" by simp
  obtain r m w2 where af: "addFinalizerIfNeeded d fl g w1 = (r, m, w2)"
    by (cases "addFinalizerIfNeeded d fl g w1")
  with ok Reconcile_active[OF get sub del, of d] have r: "r = None"
    and mat: "materialize fl (sub_Name s0) (snd (GetUserIDAndHubOwnerIDFromLabelValues d g)) m w2
        = (OK, w')"
    by (cases r; simp)+
  note a = addFinalizerIfNeeded_None[OF af[unfolded r]]
  from materialize_OK[OF mat] a(1)
  have "spoke w' = materialized (sub_Name s0)
      (snd (GetUserIDAndHubOwnerIDFromLabelValues d g)) g (spoke w2)" and "hub w' = hub w2"
    by (simp_all add: materialized_AddFinalizer)
  with a(2) a(3) a(4) w1 show ?thesis
    by (intro exI[of _ "spoke w2"]) auto
qed

lemmas [run_defs] = active_world_def scoped_grant_def scoped_world_def

lemma Reconcile_OK_loaded:
  assumes ok: "Reconcile d fl req w = (OK, w')"
    and lk: "lookup (ManagedClusterRoleBindingKind, req) (hub w) = Some (MCRB g)"
  shows "\<exists>w1 s0 others.
           client_Get fl HubClient (ManagedClusterRoleBindingKind, req) w = (Inr (MCRB g), w1)
           \<and> mcrb_Subjects g = s0 # others"
proof -
  obtain r w1 where get: "client_Get fl HubClient (ManagedClusterRoleBindingKind, req) w = (r, w1)"
    by (cases "client_Get fl HubClient (ManagedClusterRoleBindingKind, req) w")
  show ?thesis
  proof (cases r)
    case (Inl e)
    with get ok show ?thesis by (simp add: Reconcile_def)
  next
    case (Inr ob)
    with get client_Get_Inr[of fl HubClient _ w ob w1] lk have ob: "ob = MCRB g" by simp
    show ?thesis
    proof (cases "mcrb_Subjects g")
      case Nil
      with get Inr ob ok show ?thesis by (simp add: Reconcile_def)
    next
      case (Cons s0 others)
      with get Inr ob show ?thesis by simp
    qed
  qed
qed

subsection \<open>Runs on a store that is already settled, and the hub store\<close>

lemma CreateOrPatch_hub:
  assumes "CreateOrPatch fl SpokeClient obj tr w = (r, w')"
  shows "hub w' = hub w"
proof (cases "client_Get fl SpokeClient (keyOf obj) w")
  case (Pair res w1)
  show ?thesis
  proof (cases res)
    case (Inl e)
    with Pair have w1: "hub w1 = hub w" using client_Get_Inl[of fl SpokeClient "keyOf obj" w e w1] by simp
    show ?thesis
    proof (cases "e = NotFound \<and> tr obj True \<noteq> None")
      case True
      then obtain md where md: "tr obj True = Some md" and e: "e = NotFound" by auto
      obtain r2 w2 where c: "client_Create fl SpokeClient md w1 = (r2, w2)"
        by (cases "client_Create fl SpokeClient md w1")
      then have "hub w2 = hub w1"
        by (cases r2) (auto dest!: client_Create_None client_Create_Some)
      with assms Pair Inl e md c w1 show ?thesis
        by (cases r2) (auto simp: CreateOrPatch_def)
    next
      case False
      with assms Pair Inl w1 show ?thesis
        by (cases e) (auto simp: CreateOrPatch_def split: option.splits)
    qed
  next
    case (Inr cur)
    with Pair have w1: "hub w1 = hub w" using client_Get_Inr[of fl SpokeClient "keyOf obj" w cur w1] by simp
    show ?thesis
    proof (cases "tr cur False")
      case None
      with assms Pair Inr w1 show ?thesis by (simp add: CreateOrPatch_def)
    next
      case (Some md)
      obtain r2 w2 where c: "client_Patch fl SpokeClient md w1 = (r2, w2)"
        by (cases "client_Patch fl SpokeClient md w1")
      then have "hub w2 = hub w1"
        by (cases r2) (auto dest!: client_Patch_None client_Patch_Some)
      with assms Pair Inr Some c w1 show ?thesis
        by (cases r2) (auto simp: CreateOrPatch_def)
    qed
  qed
qed

lemma CreateOrPatch_settled:
  assumes st: "settled obj tr (spoke w)" and kk: "keeps_key tr"
    and run: "CreateOrPatch fl SpokeClient obj tr w = (r, w')"
  shows "spoke w' = spoke w"
proof -
  from st obtain m where m: "lookup (keyOf obj) (spoke w) = Some m" and fx: "tr m False = Some m"
    by (auto simp: settled_def split: option.splits)
  obtain res w1 where get: "client_Get fl SpokeClient (keyOf obj) w = (res, w1)"
    by (cases "client_Get fl SpokeClient (keyOf obj) w")
  show ?thesis
  proof (cases res)
    case (Inl e)
    with get have w1: "spoke w1 = spoke w" using client_Get_Inl[of fl SpokeClient "keyOf obj" w e w1] by simp
    show ?thesis
    proof (cases "e = NotFound \<and> tr obj True \<noteq> None")
      case True
      then obtain md where md: "tr obj True = Some md" and e: "e = NotFound" by auto
      obtain r2 w2 where c: "client_Create fl SpokeClient md w1 = (r2, w2)"
        by (cases "client_Create fl SpokeClient md w1")
      have "spoke w2 = spoke w1"
      proof (cases r2)
        case None
        from client_Create_None[OF c[unfolded None]] keeps_keyD[OF kk md] m w1
        show ?thesis by simp
      next
        case (Some e2)
        from client_Create_Some[OF c[unfolded Some]] show ?thesis by simp
      qed
      with run get Inl e md c w1 show ?thesis
        by (cases r2) (auto simp: CreateOrPatch_def)
    next
      case False
      with run get Inl w1 show ?thesis
        by (cases e) (auto simp: CreateOrPatch_def split: option.splits)
    qed
  next
    case (Inr cur)
    with get client_Get_Inr[of fl SpokeClient "keyOf obj" w cur w1] m
    have w1: "spoke w1 = spoke w" and cur: "cur = m" by simp_all
    obtain r2 w2 where c: "client_Patch fl SpokeClient m w1 = (r2, w2)"
      by (cases "client_Patch fl SpokeClient m w1")
    have "spoke w2 = spoke w1"
    proof (cases r2)
      case None
      from lookup_Some[OF m] m have "replace m (spoke w) = spoke w" by (simp add: replace_same)
      with client_Patch_None[OF c[unfolded None]] w1 show ?thesis by simp
    next
      case (Some e2)
      from client_Patch_Some[OF c[unfolded Some]] show ?thesis by simp
    qed
    with run get Inr cur fx c w1 show ?thesis
      by (cases r2) (auto simp: CreateOrPatch_def)
  qed
qed

lemma rangeNamespaces_hub: "rangeNamespaces fl u m nss w = (r, w') \<Longrightarrow> hub w' = hub w"
proof (induction nss arbitrary: w)
  case Nil
  then show ?case by simp
next
  case (Cons ns rest)
  obtain r1 w1 where st: "CreateOrPatch fl SpokeClient (RB (givenRolebinding u m ns))
             (mutateRoleBinding (givenRolebinding u m ns)) w = (r1, w1)"
    by (cases "CreateOrPatch fl SpokeClient (RB (givenRolebinding u m ns))
             (mutateRoleBinding (givenRolebinding u m ns)) w")
  note h = CreateOrPatch_hub[OF st]
  show ?case
  proof (cases "r1 = OK")
    case True
    with Cons.prems st have "rangeNamespaces fl u m rest w1 = (r, w')" by simp
    from Cons.IH[OF this] h show ?thesis by simp
  next
    case False
    with Cons.prems st have "w' = w1" by (cases r1) simp_all
    with h show ?thesis by simp
  qed
qed

lemma rangeNamespaces_settled:
  assumes "\<And>ns. ns \<in> set nss \<Longrightarrow>
      settled (RB (givenRolebinding u m ns)) (mutateRoleBinding (givenRolebinding u m ns)) (spoke w)"
    and "rangeNamespaces fl u m nss w = (r, w')"
  shows "spoke w' = spoke w"
  using assms
proof (induction nss arbitrary: w)
  case Nil
  then show ?case by simp
next
  case (Cons ns rest)
  obtain r1 w1 where st: "CreateOrPatch fl SpokeClient (RB (givenRolebinding u m ns))
             (mutateRoleBinding (givenRolebinding u m ns)) w = (r1, w1)"
    by (cases "CreateOrPatch fl SpokeClient (RB (givenRolebinding u m ns))
             (mutateRoleBinding (givenRolebinding u m ns)) w")
  have s: "spoke w1 = spoke w"
    by (rule CreateOrPatch_settled[OF _ keeps_key_mutateRoleBinding st]) (simp add: Cons.prems(1))
  show ?case
  proof (cases "r1 = OK")
    case True
    with Cons.prems st have run: "rangeNamespaces fl u m rest w1 = (r, w')" by simp
    have "spoke w' = spoke w1"
      by (rule Cons.IH[OF _ run]) (simp add: s Cons.prems(1))
    with s show ?thesis by simp
  next
    case False
    with Cons.prems st have "w' = w1" by (cases r1) simp_all
    with s show ?thesis by simp
  qed
qed

lemma materialize_hub:
  assumes "materialize fl u h m w = (r, w')"
  shows "hub w' = hub w"
proof -
  obtain r1 w1 where s1: "CreateOrPatch fl SpokeClient (CR (cr u h m))
      (mutateClusterRole (cr u h m)) w = (r1, w1)"
    by (cases "CreateOrPatch fl SpokeClient (CR (cr u h m)) (mutateClusterRole (cr u h m)) w")
  obtain r2 w2 where s2: "CreateOrPatch fl SpokeClient (CRB (crb u h m))
      (mutateClusterRoleBinding (crb u h m)) w1 = (r2, w2)"
    by (cases "CreateOrPatch fl SpokeClient (CRB (crb u h m))
      (mutateClusterRoleBinding (crb u h m)) w1")
  obtain r3 w3 where s3: "CreateOrPatch fl SpokeClient (CRB (givenClusterRolebinding u m))
      (mutateClusterRoleBinding (givenClusterRolebinding u m)) w2 = (r3, w3)"
    by (cases "CreateOrPatch fl SpokeClient (CRB (givenClusterRolebinding u m))
      (mutateClusterRoleBinding (givenClusterRolebinding u m)) w2")
  note h = CreateOrPatch_hub[OF s1] CreateOrPatch_hub[OF s2] CreateOrPatch_hub[OF s3]
  show ?thesis
  proof (cases "r1 = OK")
    case False
    with assms s1 have "w' = w1" by (cases r1) (simp_all add: materialize_def)
    with h show ?thesis by simp
  next
    case r1: True
    show ?thesis
    proof (cases "r2 = OK")
      case False
      with assms s1 s2 r1 have "w' = w2" by (cases r2) (simp_all add: materialize_def)
      with h show ?thesis by simp
    next
      case r2: True
      show ?thesis
      proof (cases "cref_Namespaces (mcrb_RoleRef m)")
        case None
        with assms s1 s2 s3 r1 r2 have "w' = w3" by (simp add: materialize_def)
        with h show ?thesis by simp
      next
        case (Some nss)
        with assms s1 s2 r1 r2 have "rangeNamespaces fl u m nss w2 = (r, w')"
          by (simp add: materialize_def)
        from rangeNamespaces_hub[OF this] h show ?thesis by simp
      qed
    qed
  qed
qed

lemma materialize_settled:
  assumes a1: "settled (CR (cr u h m)) (mutateClusterRole (cr u h m)) (spoke w)"
    and a2: "settled (CRB (crb u h m)) (mutateClusterRoleBinding (crb u h m)) (spoke w)"
    and a3: "cref_Namespaces (mcrb_RoleRef m) = None \<Longrightarrow>
        settled (CRB (givenClusterRolebinding u m))
          (mutateClusterRoleBinding (givenClusterRolebinding u m)) (spoke w)"
    and a4: "\<And>nss ns. cref_Namespaces (mcrb_RoleRef m) = Some nss \<Longrightarrow> ns \<in> set nss \<Longrightarrow>
        settled (RB (givenRolebinding u m ns)) (mutateRoleBinding (givenRolebinding u m ns)) (spoke w)"
    and run: "materialize fl u h m w = (r, w')"
  shows "spoke w' = spoke w"
proof -
  obtain r1 w1 where s1: "CreateOrPatch fl SpokeClient (CR (cr u h m))
      (mutateClusterRole (cr u h m)) w = (r1, w1)"
    by (cases "CreateOrPatch fl SpokeClient (CR (cr u h m)) (mutateClusterRole (cr u h m)) w")
  obtain r2 w2 where s2: "CreateOrPatch fl SpokeClient (CRB (crb u h m))
      (mutateClusterRoleBinding (crb u h m)) w1 = (r2, w2)"
    by (cases "CreateOrPatch fl SpokeClient (CRB (crb u h m))
      (mutateClusterRoleBinding (crb u h m)) w1")
  obtain r3 w3 where s3: "CreateOrPatch fl SpokeClient (CRB (givenClusterRolebinding u m))
      (mutateClusterRoleBinding (givenClusterRolebinding u m)) w2 = (r3, w3)"
    by (cases "CreateOrPatch fl SpokeClient (CRB (givenClusterRolebinding u m))
      (mutateClusterRoleBinding (givenClusterRolebinding u m)) w2")
  have e1: "spoke w1 = spoke w"
    by (rule CreateOrPatch_settled[OF a1 keeps_key_mutateClusterRole s1])
  have e2: "spoke w2 = spoke w"
    using CreateOrPatch_settled[OF _ keeps_key_mutateClusterRoleBinding s2] a2 e1 by simp
  show ?thesis
  proof (cases "r1 = OK")
    case False
    with run s1 have "w' = w1" by (cases r1) (simp_all add: materialize_def)
    with e1 show ?thesis by simp
  next
    case r1: True
    show ?thesis
    proof (cases "r2 = OK")
      case False
      with run s1 s2 r1 have "w' = w2" by (cases r2) (simp_all add: materialize_def)
      with e2 show ?thesis by simp
    next
      case r2: True
      show ?thesis
      proof (cases "cref_Namespaces (mcrb_RoleRef m)")
        case None
        with run s1 s2 s3 r1 r2 have "w' = w3" by (simp add: materialize_def)
        moreover have "spoke w3 = spoke w2"
          using CreateOrPatch_settled[OF _ keeps_key_mutateClusterRoleBinding s3] a3[OF None] e2
          by simp
        ultimately show ?thesis using e2 by simp
      next
        case (Some nss)
        with run s1 s2 r1 r2 have rn: "rangeNamespaces fl u m nss w2 = (r, w')"
          by (simp add: materialize_def)
        have "spoke w' = spoke w2"
          by (rule rangeNamespaces_settled[OF _ rn]) (simp add: e2 a4[OF Some])
        with e2 show ?thesis by simp
      qed
    qed
  qed
qed

lemma Reconcile_hub_unchanged: "hub (snd (Reconcile d fl req w)) = hub w"
proof -
  obtain res w1 where get: "client_Get fl HubClient (ManagedClusterRoleBindingKind, req) w = (res, w1)"
    by (cases "client_Get fl HubClient (ManagedClusterRoleBindingKind, req) w")
  show ?thesis
  proof (cases res)
    case (Inl e)
    with get client_Get_Inl[of fl HubClient "(ManagedClusterRoleBindingKind, req)" w e w1] show ?thesis
      by (simp add: Reconcile_def)
  next
    case (Inr ob)
    with get client_Get_Inr[of fl HubClient "(ManagedClusterRoleBindingKind, req)" w ob w1]
    have w1: "hub w1 = hub w" and lk: "lookup (ManagedClusterRoleBindingKind, req) (hub w) = Some ob"
      by simp_all
    from lookup_Some[OF lk] have "kindOf ob = ManagedClusterRoleBindingKind"
      by (simp add: kindOf_keyOf)
    then obtain g where ob: "ob = MCRB g" by (cases ob) simp_all
    note get' = get[unfolded Inr ob]
    show ?thesis
    proof (cases "mcrb_Subjects g")
      case Nil
      with get' w1 show ?thesis by (simp add: Reconcile_def)
    next
      case (Cons s0 others)
      then have sub: "mcrb_Subjects g \<noteq> []" by simp
      show ?thesis
      proof (cases "DeletionTimestamp (mcrb_ObjectMeta g) = None")
        case True
        obtain r m w2 where af: "addFinalizerIfNeeded d fl g w1 = (r, m, w2)"
          by (cases "addFinalizerIfNeeded d fl g w1")
        have h2: "hub w2 = hub w1"
          using af
          by (auto simp: addFinalizerIfNeeded_def Let_def
                   split: if_splits prod.splits option.splits
                   dest!: client_Update_None client_Update_Some)
        show ?thesis
        proof (cases r)
          case None
          obtain r3 w3 where mat: "materialize fl (sub_Name s0)
              (snd (GetUserIDAndHubOwnerIDFromLabelValues d g)) m w2 = (r3, w3)"
            by (cases "materialize fl (sub_Name s0)
              (snd (GetUserIDAndHubOwnerIDFromLabelValues d g)) m w2")
          from materialize_hub[OF mat] h2 w1 af None mat Reconcile_active[OF get' Cons True, of d]
          show ?thesis by simp
        next
          case (Some e)
          with af h2 w1 Reconcile_active[OF get' Cons True, of d] show ?thesis by simp
        qed
      next
        case False
        show ?thesis
        proof (cases "ContainsFinalizer g (SpokeAuthorizationFinalizer d)")
          case fin: True
          obtain r2 w2 where dar: "deleteAssociatedResources fl g w1 = (r2, w2)"
            by (cases "deleteAssociatedResources fl g w1")
          from deleteAssociatedResources_sweeps[OF dar] have h2: "hub w2 = hub w1"
            by (simp add: sweeps_from_def)
          obtain r3 w3 where up: "client_Update fl SpokeClient
              (MCRB (RemoveFinalizer g (SpokeAuthorizationFinalizer d))) w2 = (r3, w3)"
            by (cases "client_Update fl SpokeClient
              (MCRB (RemoveFinalizer g (SpokeAuthorizationFinalizer d))) w2")
          then have h3: "hub w3 = hub w2"
            by (cases r3) (auto dest!: client_Update_None client_Update_Some)
          from Reconcile_terminating[OF get' sub False fin] dar up h2 h3 w1 show ?thesis
            by (cases r2; cases r3) simp_all
        next
          case nofin: False
          with get' Cons False w1 show ?thesis by (simp add: Reconcile_def)
        qed
      qed
    qed
  qed
qed


subsection \<open>The delete loop at any position\<close>

lemma deleteItems_append:
  "deleteItems fl pre w = (None, w1) \<Longrightarrow> deleteItems fl (pre @ xs) w = deleteItems fl xs w1"
proof (induction pre arbitrary: w)
  case Nil
  then show ?case by simp
next
  case (Cons y pre)
  obtain r v where d: "client_Delete fl SpokeClient y w = (r, v)"
    by (cases "client_Delete fl SpokeClient y w")
  with Cons.prems have r: "r = None" and rest: "deleteItems fl pre v = (None, w1)"
    by (cases r; simp)+
  from Cons.IH[OF rest] d r show ?case by simp
qed

lemma deleteItems_Some_split:
  "deleteItems fl items w = (Some e, w') \<Longrightarrow>
     \<exists>pre x xs w1. items = pre @ x # xs \<and> deleteItems fl pre w = (None, w1)
        \<and> client_Delete fl SpokeClient x w1 = (Some e, w')"
proof (induction items arbitrary: w)
  case Nil
  then show ?case by simp
next
  case (Cons y ys)
  obtain r v where d: "client_Delete fl SpokeClient y w = (r, v)"
    by (cases "client_Delete fl SpokeClient y w")
  show ?case
  proof (cases r)
    case None
    with Cons.prems d have "deleteItems fl ys v = (Some e, w')" by simp
    from Cons.IH[OF this] obtain pre x xs w1
      where a: "ys = pre @ x # xs" "deleteItems fl pre v = (None, w1)"
        "client_Delete fl SpokeClient x w1 = (Some e, w')" by blast
    from a(2) d None have "deleteItems fl (y # pre) w = (None, w1)" by simp
    with a(1,3) have "y # ys = (y # pre) @ x # xs \<and> deleteItems fl (y # pre) w = (None, w1)
        \<and> client_Delete fl SpokeClient x w1 = (Some e, w')" by simp
    then show ?thesis by blast
  next
    case (Some e')
    with Cons.prems d have "e' = e" "v = w'" by simp_all
    with d Some have "y # ys = [] @ y # ys \<and> deleteItems fl [] w = (None, w)
        \<and> client_Delete fl SpokeClient y w = (Some e, w')" by simp
    then show ?thesis by blast
  qed
qed

lemma deleteItems_fails_at:
  assumes "deleteItems fl pre w = (None, w1)"
    and "fst (client_Delete fl SpokeClient x w1) = Some e"
  shows "deleteItems fl (pre @ x # xs) w = (Some e, record_call SpokeClient (OpDelete x) w1)"
proof -
  from assms(2) obtain v where d: "client_Delete fl SpokeClient x w1 = (Some e, v)"
    by (cases "client_Delete fl SpokeClient x w1") auto
  from client_Delete_Some[OF d] d deleteItems_append[OF assms(1), of "x # xs"]
  show ?thesis by simp
qed

lemma sweepKind_Inr:
  assumes "fst (client_List fl SpokeClient kd ls w) = Inr items"
  shows "sweepKind fl kd ls w = deleteItems fl items (record_call SpokeClient (OpList kd ls) w)"
proof -
  from assms obtain v where l: "client_List fl SpokeClient kd ls w = (Inr items, v)"
    by (cases "client_List fl SpokeClient kd ls w") auto
  then have "v = record_call SpokeClient (OpList kd ls) w"
    by (auto simp: client_List_def Let_def split: option.splits)
  with l show ?thesis by (simp add: sweepKind_def)
qed

section \<open>Loading the Grant\<close>

text \<open>C3 (amended): when loading the Grant by identity reports not-found, the invocation takes
  no action on either store and issues no further call, and it returns the not-found error
  to its caller.\<close>

theorem Reconcile_load_not_found:
  assumes "fst (client_Get fl HubClient (ManagedClusterRoleBindingKind, req) w) = Inl NotFound"
  shows "Reconcile d fl req w =
           (Err NotFound, w\<lparr>trace := trace w @ [(HubClient, OpGet (ManagedClusterRoleBindingKind, req))]\<rparr>)"
proof -
  obtain w1 where g: "client_Get fl HubClient (ManagedClusterRoleBindingKind, req) w = (Inl NotFound, w1)"
    using assms by (cases "client_Get fl HubClient (ManagedClusterRoleBindingKind, req) w") auto
  from client_Get_Inl[OF g] g show ?thesis
    by (simp add: Reconcile_def record_call_def)
qed

theorem Reconcile_load_not_found_witness:
  "fst (client_Get no_faults HubClient (ManagedClusterRoleBindingKind, ('''', ''g1'')) empty_world)
     = Inl NotFound
   \<and> Reconcile deps0 no_faults ('''', ''g1'') empty_world =
       (Err NotFound,
        empty_world\<lparr>trace := trace empty_world
           @ [(HubClient, OpGet (ManagedClusterRoleBindingKind, ('''', ''g1'')))]\<rparr>)"
proof -
  have h: "fst (client_Get no_faults HubClient (ManagedClusterRoleBindingKind, ('''', ''g1'')) empty_world)
     = Inl NotFound"
    by (simp add: run_defs)
  from h Reconcile_load_not_found[OF h, of deps0] show ?thesis by simp
qed

text \<open>The claim as stated fails: on an empty hub store the load reports not-found and the
  invocation does not succeed.\<close>

theorem Reconcile_load_not_found_returns_error:
  "fst (client_Get no_faults HubClient (ManagedClusterRoleBindingKind, ('''', ''g1'')) empty_world)
     = Inl NotFound
   \<and> fst (Reconcile deps0 no_faults ('''', ''g1'') empty_world) \<noteq> OK"
  by (simp add: run_defs)

text \<open>C10: once the Grant is loaded, the invocation panics exactly when the Grant has no subject:
  the first subject is read before the branch on the deletion marker, so a Grant without
  subjects panics on the cleanup path too, and with a subject no index access is out of
  range.\<close>

theorem Reconcile_panics_iff_no_subject:
  assumes "fst (client_Get fl HubClient (ManagedClusterRoleBindingKind, req) w) = Inr (MCRB g)"
  shows "fst (Reconcile d fl req w) = Panic \<longleftrightarrow> mcrb_Subjects g = []"
proof -
  obtain w1 where g: "client_Get fl HubClient (ManagedClusterRoleBindingKind, req) w = (Inr (MCRB g), w1)"
    using assms by (cases "client_Get fl HubClient (ManagedClusterRoleBindingKind, req) w") auto
  show ?thesis
  proof (cases "mcrb_Subjects g")
    case Nil
    with g show ?thesis by (simp add: Reconcile_def)
  next
    case (Cons s0 others)
    have "fst (Reconcile d fl req w) \<noteq> Panic"
      using g Cons materialize_no_Panic
      by (auto simp: Reconcile_def Let_def addFinalizerIfNeeded_def
               split: prod.splits option.splits)
    with Cons show ?thesis by simp
  qed
qed

theorem Reconcile_panics_iff_no_subject_witness:
  "fst (client_Get no_faults HubClient (ManagedClusterRoleBindingKind, ('''', ''g1''))
          world_without_subject) = Inr (MCRB grant_without_subject)
   \<and> DeletionTimestamp (mcrb_ObjectMeta grant_without_subject) \<noteq> None
   \<and> fst (Reconcile deps0 no_faults ('''', ''g1'') world_without_subject) = Panic"
proof -
  have h: "fst (client_Get no_faults HubClient (ManagedClusterRoleBindingKind, ('''', ''g1''))
          world_without_subject) = Inr (MCRB grant_without_subject)"
    by (simp add: run_defs world_without_subject_def grant_without_subject_def)
  have s: "mcrb_Subjects grant_without_subject = []"
    by (simp add: grant_without_subject_def)
  have t: "DeletionTimestamp (mcrb_ObjectMeta grant_without_subject) \<noteq> None"
    by (simp add: grant_without_subject_def grant_def)
  from Reconcile_panics_iff_no_subject[OF h, of deps0] s h t show ?thesis by simp
qed

section \<open>The cleanup path\<close>

text \<open>C7: for a Grant with a deletion marker and the finalizer, the finalizer-removing update is
  issued only after the cleanup sweep has returned without error, as the next call after
  it.  If the sweep fails, no update has been issued, the Grant in the hub store is the
  loaded one (with its finalizer), and the invocation returns the sweep's error.\<close>

theorem finalizer_removed_only_after_sweep:
  assumes get: "client_Get fl HubClient (ManagedClusterRoleBindingKind, req) w = (Inr (MCRB g), w1)"
    and sub: "mcrb_Subjects g \<noteq> []"
    and del: "DeletionTimestamp (mcrb_ObjectMeta g) \<noteq> None"
    and fin: "ContainsFinalizer g (SpokeAuthorizationFinalizer d)"
  shows "case deleteAssociatedResources fl g w1 of
           (Some e, w2) \<Rightarrow>
             Reconcile d fl req w = (Err e, w2)
             \<and> lookup (ManagedClusterRoleBindingKind, req) (hub w2) = Some (MCRB g)
             \<and> filter isUpdate (calls_since w w2) = []
         | (None, w2) \<Rightarrow>
             filter isUpdate (calls_since w w2) = []
             \<and> trace (snd (Reconcile d fl req w)) =
                 trace w2 @ [(SpokeClient,
                    OpUpdate (MCRB (RemoveFinalizer g (SpokeAuthorizationFinalizer d))))]"
proof -
  obtain r w2 where dar: "deleteAssociatedResources fl g w1 = (r, w2)"
    by (cases "deleteAssociatedResources fl g w1")
  from client_Get_Inr[OF get]
  have w1: "w1 = record_call HubClient (OpGet (ManagedClusterRoleBindingKind, req)) w"
    and lk: "lookup (ManagedClusterRoleBindingKind, req) (hub w) = Some (MCRB g)"
    by simp_all
  note sw = deleteAssociatedResources_sweeps[OF dar]
  from sw w1 have hub: "hub w2 = hub w" by (simp add: sweeps_from_def)
  have "calls_since w w2 = calls_since w w1 @ calls_since w1 w2"
    by (rule calls_since_trans[OF sw]) (simp add: w1)
  with sweeps_from_no_update[OF sw] have nu: "filter isUpdate (calls_since w w2) = []"
    by (simp add: w1 calls_since_Get)
  show ?thesis
  proof (cases r)
    case (Some e)
    with dar Reconcile_terminating[OF get sub del fin] hub lk nu show ?thesis by simp
  next
    case None
    obtain r3 w3 where up: "client_Update fl SpokeClient
        (MCRB (RemoveFinalizer g (SpokeAuthorizationFinalizer d))) w2 = (r3, w3)"
      by (cases "client_Update fl SpokeClient
        (MCRB (RemoveFinalizer g (SpokeAuthorizationFinalizer d))) w2")
    then have "trace w3 = trace w2 @ [(SpokeClient,
                    OpUpdate (MCRB (RemoveFinalizer g (SpokeAuthorizationFinalizer d))))]"
      by (cases r3) (auto dest!: client_Update_None client_Update_Some)
    with None dar up Reconcile_terminating[OF get sub del fin] nu show ?thesis
      by (cases r3) simp_all
  qed
qed

theorem finalizer_removed_only_after_sweep_witness:
  "mcrb_Subjects terminating_grant \<noteq> []
   \<and> DeletionTimestamp (mcrb_ObjectMeta terminating_grant) \<noteq> None
   \<and> ContainsFinalizer terminating_grant (SpokeAuthorizationFinalizer deps0)
   \<and> fst (deleteAssociatedResources delete_faults terminating_grant
        (record_call HubClient (OpGet (ManagedClusterRoleBindingKind, ('''', ''g1''))) terminating_world))
       = Some (StoreError ''delete failed'')
   \<and> fst (Reconcile deps0 delete_faults ('''', ''g1'') terminating_world)
       = Err (StoreError ''delete failed'')
   \<and> lookup (ManagedClusterRoleBindingKind, ('''', ''g1''))
        (hub (snd (Reconcile deps0 delete_faults ('''', ''g1'') terminating_world)))
       = Some (MCRB terminating_grant)"
proof -
  let ?w1 = "record_call HubClient (OpGet (ManagedClusterRoleBindingKind, ('''', ''g1''))) terminating_world"
  have get: "client_Get delete_faults HubClient (ManagedClusterRoleBindingKind, ('''', ''g1''))
      terminating_world = (Inr (MCRB terminating_grant), ?w1)"
    by (simp add: run_defs)
  have sub: "mcrb_Subjects terminating_grant \<noteq> []"
    by (simp add: run_defs)
  have del: "DeletionTimestamp (mcrb_ObjectMeta terminating_grant) \<noteq> None"
    by (simp add: run_defs)
  have fin: "ContainsFinalizer terminating_grant (SpokeAuthorizationFinalizer deps0)"
    by (simp add: run_defs)
  have dar: "fst (deleteAssociatedResources delete_faults terminating_grant ?w1)
       = Some (StoreError ''delete failed'')"
    by (simp add: run_defs)
  from finalizer_removed_only_after_sweep[OF get sub del fin] dar sub del fin
  show ?thesis
    by (cases "deleteAssociatedResources delete_faults terminating_grant ?w1") auto
qed

text \<open>C8: in each block of the cleanup sweep an error of the list call is not propagated: the
  block returns no error and has deleted nothing, as if nothing had been found, and when
  every list call fails the whole sweep is three list calls and succeeds.  After a
  successful list the block returns what the delete loop returns.  The delete loop
  returns the error of a delete call at once, at whatever position of the list the call
  fails, after the items before it were deleted; the remaining items are not deleted.
  The sweep goes on to the next kind exactly when a block returned no error, so an error
  of a block or of the whole sweep is the error of a delete call, and that call is the
  last one issued.\<close>

theorem sweep_error_policy:
  "(fst (client_List fl SpokeClient kd ls w) = Inl e \<longrightarrow>
      sweepKind fl kd ls w = (None, w\<lparr>trace := trace w @ [(SpokeClient, OpList kd ls)]\<rparr>))
   \<and> (fst (client_Delete fl SpokeClient x w) = Some e \<longrightarrow>
      deleteItems fl (x # xs) w = (Some e, w\<lparr>trace := trace w @ [(SpokeClient, OpDelete x)]\<rparr>))
   \<and> (sweepKind fl ServiceAccountKind (Labels (mcrb_ObjectMeta g)) w = (Some e, w1) \<longrightarrow>
      deleteAssociatedResources fl g w = (Some e, w1))
   \<and> (sweepKind fl ServiceAccountKind (Labels (mcrb_ObjectMeta g)) w = (None, w1)
      \<and> sweepKind fl ClusterRoleKind (Labels (mcrb_ObjectMeta g)) w1 = (Some e, w2) \<longrightarrow>
      deleteAssociatedResources fl g w = (Some e, w2))
   \<and> (sweepKind fl ServiceAccountKind (Labels (mcrb_ObjectMeta g)) w = (None, w1)
      \<and> sweepKind fl ClusterRoleKind (Labels (mcrb_ObjectMeta g)) w1 = (None, w2) \<longrightarrow>
      deleteAssociatedResources fl g w
        = sweepKind fl ClusterRoleBindingKind (Labels (mcrb_ObjectMeta g)) w2)
   \<and> (deleteAssociatedResources fl g w = (Some e, w') \<longrightarrow>
      (\<exists>y. last (trace w') = (SpokeClient, OpDelete y)))
   \<and> (fst (client_List fl SpokeClient kd ls w) = Inr items \<longrightarrow>
      sweepKind fl kd ls w = deleteItems fl items (w\<lparr>trace := trace w @ [(SpokeClient, OpList kd ls)]\<rparr>))
   \<and> (fst (client_List fl SpokeClient kd ls w) = Inr (pre @ x # xs)
      \<and> deleteItems fl pre (w\<lparr>trace := trace w @ [(SpokeClient, OpList kd ls)]\<rparr>) = (None, v)
      \<and> fst (client_Delete fl SpokeClient x v) = Some e \<longrightarrow>
      sweepKind fl kd ls w = (Some e, v\<lparr>trace := trace v @ [(SpokeClient, OpDelete x)]\<rparr>))
   \<and> deleteItems fl [] w = (None, w)
   \<and> (fst (client_Delete fl SpokeClient x w) = None \<longrightarrow>
      deleteItems fl (x # xs) w = deleteItems fl xs (snd (client_Delete fl SpokeClient x w)))
   \<and> (deleteItems fl pre w = (None, v) \<and> fst (client_Delete fl SpokeClient x v) = Some e \<longrightarrow>
      deleteItems fl (pre @ x # xs) w = (Some e, v\<lparr>trace := trace v @ [(SpokeClient, OpDelete x)]\<rparr>))
   \<and> (deleteItems fl items w = (Some e, w') \<longrightarrow>
      (\<exists>pre x xs v. items = pre @ x # xs \<and> deleteItems fl pre w = (None, v)
         \<and> client_Delete fl SpokeClient x v = (Some e, w')))
   \<and> (sweepKind fl kd ls w = (Some e, w') \<longrightarrow>
      (\<exists>pre x xs v. fst (client_List fl SpokeClient kd ls w) = Inr (pre @ x # xs)
         \<and> deleteItems fl pre (w\<lparr>trace := trace w @ [(SpokeClient, OpList kd ls)]\<rparr>) = (None, v)
         \<and> client_Delete fl SpokeClient x v = (Some e, w')))
   \<and> ((\<forall>n kd. fl n SpokeClient (OpList kd (Labels (mcrb_ObjectMeta g))) \<noteq> None) \<longrightarrow>
      deleteAssociatedResources fl g w
        = (None, w\<lparr>trace := trace w @
             [(SpokeClient, OpList ServiceAccountKind (Labels (mcrb_ObjectMeta g))),
              (SpokeClient, OpList ClusterRoleKind (Labels (mcrb_ObjectMeta g))),
              (SpokeClient, OpList ClusterRoleBindingKind (Labels (mcrb_ObjectMeta g)))]\<rparr>))"
proof -
  have c1: "sweepKind fl kd ls w = (None, w\<lparr>trace := trace w @ [(SpokeClient, OpList kd ls)]\<rparr>)"
    if a: "fst (client_List fl SpokeClient kd ls w) = Inl e"
  proof -
    from a obtain w1 where l: "client_List fl SpokeClient kd ls w = (Inl e, w1)"
      by (cases "client_List fl SpokeClient kd ls w") auto
    from client_List_Inl[OF l] l show ?thesis by (simp add: sweepKind_def record_call_def)
  qed
  have c2: "deleteItems fl (x # xs) w = (Some e, w\<lparr>trace := trace w @ [(SpokeClient, OpDelete x)]\<rparr>)"
    if a: "fst (client_Delete fl SpokeClient x w) = Some e"
  proof -
    from a obtain w1 where l: "client_Delete fl SpokeClient x w = (Some e, w1)"
      by (cases "client_Delete fl SpokeClient x w") auto
    from client_Delete_Some[OF l] l show ?thesis by (simp add: record_call_def)
  qed
  have c3: "deleteAssociatedResources fl g w = (Some e, w1)"
    if "sweepKind fl ServiceAccountKind (Labels (mcrb_ObjectMeta g)) w = (Some e, w1)"
    using that by (simp add: deleteAssociatedResources_def)
  have c4: "deleteAssociatedResources fl g w = (Some e, w2)"
    if "sweepKind fl ServiceAccountKind (Labels (mcrb_ObjectMeta g)) w = (None, w1)
      \<and> sweepKind fl ClusterRoleKind (Labels (mcrb_ObjectMeta g)) w1 = (Some e, w2)"
    using that by (simp add: deleteAssociatedResources_def)
  have c5: "deleteAssociatedResources fl g w
        = sweepKind fl ClusterRoleBindingKind (Labels (mcrb_ObjectMeta g)) w2"
    if "sweepKind fl ServiceAccountKind (Labels (mcrb_ObjectMeta g)) w = (None, w1)
      \<and> sweepKind fl ClusterRoleKind (Labels (mcrb_ObjectMeta g)) w1 = (None, w2)"
    using that by (simp add: deleteAssociatedResources_def)
  have c6: "\<exists>y. last (trace w') = (SpokeClient, OpDelete y)"
    if a: "deleteAssociatedResources fl g w = (Some e, w')"
  proof -
    let ?ls = "Labels (mcrb_ObjectMeta g)"
    obtain r1 w1 where s1: "sweepKind fl ServiceAccountKind ?ls w = (r1, w1)"
      by (cases "sweepKind fl ServiceAccountKind ?ls w")
    obtain r2 w2 where s2: "sweepKind fl ClusterRoleKind ?ls w1 = (r2, w2)"
      by (cases "sweepKind fl ClusterRoleKind ?ls w1")
    obtain r3 w3 where s3: "sweepKind fl ClusterRoleBindingKind ?ls w2 = (r3, w3)"
      by (cases "sweepKind fl ClusterRoleBindingKind ?ls w2")
    from a s1 s2 s3
    have "(r1 = Some e \<and> w' = w1) \<or> (r2 = Some e \<and> w' = w2) \<or> (r3 = Some e \<and> w' = w3)"
      by (auto simp: deleteAssociatedResources_def split: option.splits)
    with s1 s2 s3 sweepKind_Some_last show ?thesis by blast
  qed
  have c7: "sweepKind fl kd ls w
      = deleteItems fl items (w\<lparr>trace := trace w @ [(SpokeClient, OpList kd ls)]\<rparr>)"
    if "fst (client_List fl SpokeClient kd ls w) = Inr items" for items
    using sweepKind_Inr[OF that] by (simp add: record_call_def)
  have c11: "deleteItems fl (pre @ x # xs) w
      = (Some e, v\<lparr>trace := trace v @ [(SpokeClient, OpDelete x)]\<rparr>)"
    if "deleteItems fl pre w = (None, v) \<and> fst (client_Delete fl SpokeClient x v) = Some e"
    for w :: world
    using deleteItems_fails_at[of fl pre w v x e xs] that by (simp add: record_call_def)
  have c8: "sweepKind fl kd ls w = (Some e, v\<lparr>trace := trace v @ [(SpokeClient, OpDelete x)]\<rparr>)"
    if "fst (client_List fl SpokeClient kd ls w) = Inr (pre @ x # xs)
      \<and> deleteItems fl pre (w\<lparr>trace := trace w @ [(SpokeClient, OpList kd ls)]\<rparr>) = (None, v)
      \<and> fst (client_Delete fl SpokeClient x v) = Some e"
    using that c7[of "pre @ x # xs"] c11 by simp
  have c9: "deleteItems fl [] w = (None, w)" by simp
  have c10: "deleteItems fl (x # xs) w = deleteItems fl xs (snd (client_Delete fl SpokeClient x w))"
    if "fst (client_Delete fl SpokeClient x w) = None"
    using that by (cases "client_Delete fl SpokeClient x w") simp
  have c12: "\<exists>pre x xs v. items = pre @ x # xs \<and> deleteItems fl pre w = (None, v)
         \<and> client_Delete fl SpokeClient x v = (Some e, w')"
    if "deleteItems fl items w = (Some e, w')" for w :: world
    using deleteItems_Some_split[OF that] .
  have c13: "\<exists>pre x xs v. fst (client_List fl SpokeClient kd ls w) = Inr (pre @ x # xs)
         \<and> deleteItems fl pre (w\<lparr>trace := trace w @ [(SpokeClient, OpList kd ls)]\<rparr>) = (None, v)
         \<and> client_Delete fl SpokeClient x v = (Some e, w')"
    if a: "sweepKind fl kd ls w = (Some e, w')"
  proof (cases "fst (client_List fl SpokeClient kd ls w)")
    case (Inl e')
    from c1 a show ?thesis
      using Inl by (cases "client_List fl SpokeClient kd ls w") (auto simp: sweepKind_def)
  next
    case (Inr its)
    from c7[OF Inr] a
    have "deleteItems fl its (w\<lparr>trace := trace w @ [(SpokeClient, OpList kd ls)]\<rparr>) = (Some e, w')"
      by simp
    from deleteItems_Some_split[OF this] Inr show ?thesis by auto
  qed
  have c14: "deleteAssociatedResources fl g w
        = (None, w\<lparr>trace := trace w @
             [(SpokeClient, OpList ServiceAccountKind (Labels (mcrb_ObjectMeta g))),
              (SpokeClient, OpList ClusterRoleKind (Labels (mcrb_ObjectMeta g))),
              (SpokeClient, OpList ClusterRoleBindingKind (Labels (mcrb_ObjectMeta g)))]\<rparr>)"
    if a: "\<forall>n kd. fl n SpokeClient (OpList kd (Labels (mcrb_ObjectMeta g))) \<noteq> None"
  proof -
    have sk: "sweepKind fl kd (Labels (mcrb_ObjectMeta g)) u
        = (None, u\<lparr>trace := trace u @ [(SpokeClient, OpList kd (Labels (mcrb_ObjectMeta g)))]\<rparr>)"
      for kd u
    proof -
      from a[rule_format, of "length (trace u)" kd] obtain e' where
        "fl (length (trace u)) SpokeClient (OpList kd (Labels (mcrb_ObjectMeta g))) = Some e'"
        by (cases "fl (length (trace u)) SpokeClient (OpList kd (Labels (mcrb_ObjectMeta g)))") auto
      then show ?thesis
        by (simp add: sweepKind_def client_List_def Let_def record_call_def)
    qed
    show ?thesis by (simp add: deleteAssociatedResources_def sk)
  qed
  from c1 c2 c3 c4 c5 c6 c7 c8 c9 c10 c11[of w] c12[of w] c13 c14 show ?thesis
    by (intro conjI impI) (assumption | blast)+
qed

theorem sweep_error_policy_witness:
  "fst (client_List list_faults SpokeClient ClusterRoleKind [(''app'', ''g1'')] terminating_world)
     = Inl (StoreError ''list failed'')
   \<and> sweepKind list_faults ClusterRoleKind [(''app'', ''g1'')] terminating_world
     = (None, terminating_world\<lparr>trace := trace terminating_world
          @ [(SpokeClient, OpList ClusterRoleKind [(''app'', ''g1'')])]\<rparr>)
   \<and> fst (client_Delete delete_faults SpokeClient (CR (cr ''alice'' ''hub1'' terminating_grant))
        terminating_world) = Some (StoreError ''delete failed'')
   \<and> deleteItems delete_faults
        [CR (cr ''alice'' ''hub1'' terminating_grant), CRB (crb ''alice'' ''hub1'' terminating_grant)]
        terminating_world
     = (Some (StoreError ''delete failed''),
        terminating_world\<lparr>trace := trace terminating_world
          @ [(SpokeClient, OpDelete (CR (cr ''alice'' ''hub1'' terminating_grant)))]\<rparr>)
   \<and> fst (client_List binding_delete_faults SpokeClient ClusterRoleBindingKind [(''app'', ''g1'')]
        terminating_world)
     = Inr ([] @ CRB (crb ''alice'' ''hub1'' terminating_grant)
              # [CRB (givenClusterRolebinding ''alice'' terminating_grant)])
   \<and> sweepKind binding_delete_faults ClusterRoleBindingKind [(''app'', ''g1'')] terminating_world
     = (Some (StoreError ''delete failed''),
        terminating_world\<lparr>trace :=
          [(SpokeClient, OpList ClusterRoleBindingKind [(''app'', ''g1'')]),
           (SpokeClient, OpDelete (CRB (crb ''alice'' ''hub1'' terminating_grant)))]\<rparr>)
   \<and> deleteAssociatedResources binding_delete_faults terminating_grant terminating_world
     = (Some (StoreError ''delete failed''),
        \<lparr> hub = [MCRB terminating_grant],
          spoke = [MCRB terminating_grant,
                   CRB (crb ''alice'' ''hub1'' terminating_grant),
                   CRB (givenClusterRolebinding ''alice'' terminating_grant)],
          trace = [(SpokeClient, OpList ServiceAccountKind [(''app'', ''g1'')]),
                   (SpokeClient, OpList ClusterRoleKind [(''app'', ''g1'')]),
                   (SpokeClient, OpDelete (CR (cr ''alice'' ''hub1'' terminating_grant))),
                   (SpokeClient, OpList ClusterRoleBindingKind [(''app'', ''g1'')]),
                   (SpokeClient, OpDelete (CRB (crb ''alice'' ''hub1'' terminating_grant)))] \<rparr>)"
proof -
  let ?crb = "CRB (crb ''alice'' ''hub1'' terminating_grant)"
  let ?given = "CRB (givenClusterRolebinding ''alice'' terminating_grant)"
  let ?ls = "[(''app'', ''g1'')]"
  let ?w0 = "terminating_world\<lparr>trace := trace terminating_world
      @ [(SpokeClient, OpList ClusterRoleBindingKind ?ls)]\<rparr>"
  have l: "fst (client_List list_faults SpokeClient ClusterRoleKind ?ls terminating_world)
     = Inl (StoreError ''list failed'')"
    by (simp add: client_List_def Let_def)
  have d: "fst (client_Delete delete_faults SpokeClient (CR (cr ''alice'' ''hub1'' terminating_grant))
        terminating_world) = Some (StoreError ''delete failed'')"
    by (simp add: client_Delete_def Let_def)
  have l2: "fst (client_List binding_delete_faults SpokeClient ClusterRoleBindingKind ?ls
        terminating_world) = Inr ([] @ ?crb # [?given])"
    by (simp add: run_defs)
  have p: "deleteItems binding_delete_faults [] ?w0 = (None, ?w0)" by simp
  have d2: "fst (client_Delete binding_delete_faults SpokeClient ?crb ?w0)
      = Some (StoreError ''delete failed'')"
    by (simp add: client_Delete_def Let_def crb_def)
  have tr: "trace terminating_world = []" by (simp add: run_defs)
  have all: "deleteAssociatedResources binding_delete_faults terminating_grant terminating_world
     = (Some (StoreError ''delete failed''),
        \<lparr> hub = [MCRB terminating_grant],
          spoke = [MCRB terminating_grant, ?crb, ?given],
          trace = [(SpokeClient, OpList ServiceAccountKind ?ls),
                   (SpokeClient, OpList ClusterRoleKind ?ls),
                   (SpokeClient, OpDelete (CR (cr ''alice'' ''hub1'' terminating_grant))),
                   (SpokeClient, OpList ClusterRoleBindingKind ?ls),
                   (SpokeClient, OpDelete ?crb)] \<rparr>)"
    by (simp add: run_defs)
  have a: "sweepKind list_faults ClusterRoleKind ?ls terminating_world
     = (None, terminating_world\<lparr>trace := trace terminating_world
          @ [(SpokeClient, OpList ClusterRoleKind ?ls)]\<rparr>)"
    using l sweep_error_policy[of list_faults ClusterRoleKind ?ls terminating_world
      "StoreError ''list failed''", THEN conjunct1] by simp
  have b: "deleteItems delete_faults
        [CR (cr ''alice'' ''hub1'' terminating_grant), ?crb] terminating_world
     = (Some (StoreError ''delete failed''),
        terminating_world\<lparr>trace := trace terminating_world
          @ [(SpokeClient, OpDelete (CR (cr ''alice'' ''hub1'' terminating_grant)))]\<rparr>)"
    using d sweep_error_policy[of delete_faults _ _ terminating_world "StoreError ''delete failed''"
      "CR (cr ''alice'' ''hub1'' terminating_grant)" "[?crb]",
      THEN conjunct2, THEN conjunct1] by simp
  have c: "sweepKind binding_delete_faults ClusterRoleBindingKind ?ls terminating_world
     = (Some (StoreError ''delete failed''),
        ?w0\<lparr>trace := trace ?w0 @ [(SpokeClient, OpDelete ?crb)]\<rparr>)"
    using l2 p d2
      sweep_error_policy[of binding_delete_faults ClusterRoleBindingKind ?ls terminating_world
        "StoreError ''delete failed''" ?crb "[?given]" _ _ _ _ _ "[]" ?w0,
        THEN conjunct2, THEN conjunct2, THEN conjunct2, THEN conjunct2, THEN conjunct2,
        THEN conjunct2, THEN conjunct2, THEN conjunct1]
    by simp
  from l d l2 a b c all tr show ?thesis by simp
qed




section \<open>Writes to the hub store\<close>

text \<open>C2: the claim says that the only writes to the hub store are the two finalizer updates
  of the Grant.  The code sends both updates through the spoke client, and no invocation
  changes the hub store at all (lemma \<open>Reconcile_hub_unchanged\<close>).  For a new Grant that
  exists only on the hub, the
  finalizer-adding update is a call of the spoke client; it fails with not-found, the hub
  store is unchanged and nothing is materialized.  On the cleanup path, where the spoke
  store holds a copy of the Grant, the invocation succeeds, and the Grant of the hub store
  still carries the finalizer: the finalizer-removing update is the last call, sent
  through the spoke client.\<close>

theorem finalizer_update_sent_to_spoke:
  "Reconcile deps0 no_faults ('''', ''g1'') new_grant_world =
     (Err NotFound,
      \<lparr> hub = [MCRB new_grant], spoke = [],
        trace = [(HubClient, OpGet (ManagedClusterRoleBindingKind, ('''', ''g1''))),
                 (SpokeClient, OpUpdate (MCRB (AddFinalizer new_grant ''spoke-authorization'')))] \<rparr>)
   \<and> fst (Reconcile deps0 no_faults ('''', ''g1'') terminating_world) = OK
   \<and> hub (snd (Reconcile deps0 no_faults ('''', ''g1'') terminating_world)) = [MCRB terminating_grant]
   \<and> ContainsFinalizer terminating_grant ''spoke-authorization''
   \<and> last (trace (snd (Reconcile deps0 no_faults ('''', ''g1'') terminating_world)))
       = (SpokeClient, OpUpdate (MCRB (RemoveFinalizer terminating_grant ''spoke-authorization'')))"
  by (simp add: run_defs)

section \<open>Labels of the derived objects\<close>

text \<open>C9: the claim requires the Grant's label set on every derived object the materializer
  creates or updates.  Two Grants g1 and g2 of the same subject and owner share the
  impersonation role.  Reconciling g1 creates it with the labels of g1; reconciling g2
  then updates it by a patch, and the role still carries the labels of g1, not those of
  g2: the mutators copy rules, subjects and role reference, never the labels.\<close>

theorem updated_role_keeps_foreign_labels:
  "fst (Reconcile deps0 no_faults ('''', ''g1'') two_grants_world) = OK
   \<and> fst (Reconcile deps0 no_faults ('''', ''g2'')
            (snd (Reconcile deps0 no_faults ('''', ''g1'') two_grants_world))) = OK
   \<and> (SpokeClient, OpPatch (CR (cr ''alice'' ''hub1'' active_grant)))
       \<in> set (trace (snd (Reconcile deps0 no_faults ('''', ''g2'')
            (snd (Reconcile deps0 no_faults ('''', ''g1'') two_grants_world)))))
   \<and> map_option GetLabels
        (lookup (ClusterRoleKind, '''', ''impersonate-alice-hub1'')
           (spoke (snd (Reconcile deps0 no_faults ('''', ''g2'')
              (snd (Reconcile deps0 no_faults ('''', ''g1'') two_grants_world))))))
       = Some [(''app'', ''g1'')]
   \<and> Labels (mcrb_ObjectMeta second_grant) = [(''app'', ''g2'')]"
  by (simp add: run_defs)

section \<open>The materializer\<close>

text \<open>C4: for a cluster-wide Grant named g1 with first subject alice, owner hub1 and role viewer,
  a successful reconciliation leaves in the spoke store the ClusterRole
  impersonate-alice-hub1 whose only rule is impersonate on users named alice in the empty
  API group, the ClusterRoleBinding impersonate-alice-hub1-rolebinding of the service
  account cluster-gateway to that role, and the ClusterRoleBinding g1 of the user alice to
  the ClusterRole viewer; no object of another kind, namespace or name is created or
  changed, the copy of the Grant apart.\<close>

theorem cluster_wide_scenario:
  assumes get: "client_Get fl HubClient (ManagedClusterRoleBindingKind, req) w = (Inr (MCRB g), w1)"
    and name: "Name (mcrb_ObjectMeta g) = ''g1''"
    and sub: "mcrb_Subjects g = s0 # others"
    and alice: "sub_Name s0 = ''alice''"
    and owner: "snd (GetUserIDAndHubOwnerIDFromLabelValues d g) = ''hub1''"
    and role: "mcrb_RoleRef g = \<lparr>cref_Name = ''viewer'', cref_Namespaces = None\<rparr>"
    and del: "DeletionTimestamp (mcrb_ObjectMeta g) = None"
    and ok: "Reconcile d fl req w = (OK, w')"
  shows "(\<exists>x. lookup (ClusterRoleKind, '''', ''impersonate-alice-hub1'') (spoke w') = Some (CR x)
            \<and> cr_Rules x =
                [\<lparr>APIGroups = [''''], Resources = [''users''], Verbs = [''impersonate''],
                  ResourceNames = [''alice'']\<rparr>])
         \<and> (\<exists>y. lookup (ClusterRoleBindingKind, '''', ''impersonate-alice-hub1-rolebinding'')
                  (spoke w') = Some (CRB y)
            \<and> crb_Subjects y =
                [\<lparr>sub_APIGroup = '''', sub_Kind = ''ServiceAccount'', sub_Name = ''cluster-gateway'',
                  sub_Namespace = ''open-cluster-management-managed-serviceaccount''\<rparr>]
            \<and> crb_RoleRef y =
                \<lparr>ref_APIGroup = ''rbac.authorization.k8s.io'', ref_Kind = ''ClusterRole'',
                 ref_Name = ''impersonate-alice-hub1''\<rparr>)
         \<and> (\<exists>z. lookup (ClusterRoleBindingKind, '''', ''g1'') (spoke w') = Some (CRB z)
            \<and> crb_Subjects z =
                [\<lparr>sub_APIGroup = '''', sub_Kind = ''User'', sub_Name = ''alice'',
                  sub_Namespace = ''''\<rparr>]
            \<and> crb_RoleRef z =
                \<lparr>ref_APIGroup = ''rbac.authorization.k8s.io'', ref_Kind = ''ClusterRole'',
                 ref_Name = ''viewer''\<rparr>)
         \<and> (\<forall>k. fst k \<noteq> ManagedClusterRoleBindingKind
                \<and> k \<noteq> (ClusterRoleKind, '''', ''impersonate-alice-hub1'')
                \<and> k \<noteq> (ClusterRoleBindingKind, '''', ''impersonate-alice-hub1-rolebinding'')
                \<and> k \<noteq> (ClusterRoleBindingKind, '''', ''g1'')
              \<longrightarrow> lookup k (spoke w') = lookup k (spoke w))"
proof -
  from Reconcile_active_OK[OF get sub del ok] alice owner
  obtain s2 where sp: "spoke w' = materialized ''alice'' ''hub1'' g s2"
    and fr: "\<And>k. fst k \<noteq> ManagedClusterRoleBindingKind \<Longrightarrow> lookup k s2 = lookup k (spoke w)"
    by auto
  from role have scope: "cref_Namespaces (mcrb_RoleRef g) = None"
    and rn: "cref_Name (mcrb_RoleRef g) = ''viewer''" by simp_all
  have 1: "\<exists>x. lookup (ClusterRoleKind, '''', ''impersonate-alice-hub1'') (spoke w') = Some (CR x)
            \<and> cr_Rules x =
                [\<lparr>APIGroups = [''''], Resources = [''users''], Verbs = [''impersonate''],
                  ResourceNames = [''alice'']\<rparr>]"
    using settled_ClusterRole[OF materialized_settled_cr[of "''alice''" "''hub1''" g s2]]
    by (simp add: sp cr_def keyOf_def)
  have 2: "\<exists>y. lookup (ClusterRoleBindingKind, '''', ''impersonate-alice-hub1-rolebinding'')
                  (spoke w') = Some (CRB y)
            \<and> crb_Subjects y =
                [\<lparr>sub_APIGroup = '''', sub_Kind = ''ServiceAccount'', sub_Name = ''cluster-gateway'',
                  sub_Namespace = ''open-cluster-management-managed-serviceaccount''\<rparr>]
            \<and> crb_RoleRef y =
                \<lparr>ref_APIGroup = ''rbac.authorization.k8s.io'', ref_Kind = ''ClusterRole'',
                 ref_Name = ''impersonate-alice-hub1''\<rparr>"
    using settled_ClusterRoleBinding[OF materialized_settled_crb[of g "''alice''" "''hub1''" s2]]
    by (simp add: sp name crb_def cr_def GroupName_def keyOf_def)
  have 3: "\<exists>z. lookup (ClusterRoleBindingKind, '''', ''g1'') (spoke w') = Some (CRB z)
            \<and> crb_Subjects z =
                [\<lparr>sub_APIGroup = '''', sub_Kind = ''User'', sub_Name = ''alice'',
                  sub_Namespace = ''''\<rparr>]
            \<and> crb_RoleRef z =
                \<lparr>ref_APIGroup = ''rbac.authorization.k8s.io'', ref_Kind = ''ClusterRole'',
                 ref_Name = ''viewer''\<rparr>"
    using settled_ClusterRoleBinding[OF materialized_settled_given[OF scope, of "''alice''" "''hub1''" s2]]
    by (simp add: sp name rn givenClusterRolebinding_def sub_def GroupName_def keyOf_def)
  have 4: "lookup k (spoke w') = lookup k (spoke w)"
    if "fst k \<noteq> ManagedClusterRoleBindingKind"
      and "k \<noteq> (ClusterRoleKind, '''', ''impersonate-alice-hub1'')"
      and "k \<noteq> (ClusterRoleBindingKind, '''', ''impersonate-alice-hub1-rolebinding'')"
      and "k \<noteq> (ClusterRoleBindingKind, '''', ''g1'')" for k
  proof -
    have "lookup k (materialized ''alice'' ''hub1'' g s2) = lookup k s2"
      using that scope name by (intro lookup_materialized_other) simp_all
    with fr[OF that(1)] sp show ?thesis by simp
  qed
  from 1 2 3 4 show ?thesis by blast
qed

theorem cluster_wide_scenario_witness:
  "Name (mcrb_ObjectMeta active_grant) = ''g1''
   \<and> snd (GetUserIDAndHubOwnerIDFromLabelValues deps0 active_grant) = ''hub1''
   \<and> mcrb_RoleRef active_grant = \<lparr>cref_Name = ''viewer'', cref_Namespaces = None\<rparr>
   \<and> DeletionTimestamp (mcrb_ObjectMeta active_grant) = None
   \<and> fst (Reconcile deps0 no_faults ('''', ''g1'') active_world) = OK
   \<and> (\<exists>z. lookup (ClusterRoleBindingKind, '''', ''g1'')
             (spoke (snd (Reconcile deps0 no_faults ('''', ''g1'') active_world))) = Some (CRB z)
          \<and> crb_Subjects z =
              [\<lparr>sub_APIGroup = '''', sub_Kind = ''User'', sub_Name = ''alice'',
                sub_Namespace = ''''\<rparr>]
          \<and> crb_RoleRef z =
              \<lparr>ref_APIGroup = ''rbac.authorization.k8s.io'', ref_Kind = ''ClusterRole'',
               ref_Name = ''viewer''\<rparr>)
   \<and> map keyOf (spoke (snd (Reconcile deps0 no_faults ('''', ''g1'') active_world))) =
       [(ClusterRoleKind, '''', ''impersonate-alice-hub1''),
        (ClusterRoleBindingKind, '''', ''impersonate-alice-hub1-rolebinding''),
        (ClusterRoleBindingKind, '''', ''g1'')]"
proof -
  let ?w1 = "record_call HubClient (OpGet (ManagedClusterRoleBindingKind, ('''', ''g1''))) active_world"
  let ?s0 = "\<lparr>sub_APIGroup = GroupName, sub_Kind = ''User'', sub_Name = ''alice'',
      sub_Namespace = ''''\<rparr>"
  have get: "client_Get no_faults HubClient (ManagedClusterRoleBindingKind, ('''', ''g1''))
      active_world = (Inr (MCRB active_grant), ?w1)"
    by (simp add: run_defs)
  have name: "Name (mcrb_ObjectMeta active_grant) = ''g1''" by (simp add: run_defs)
  have sub: "mcrb_Subjects active_grant = ?s0 # []" by (simp add: run_defs)
  have alice: "sub_Name ?s0 = ''alice''" by simp
  have owner: "snd (GetUserIDAndHubOwnerIDFromLabelValues deps0 active_grant) = ''hub1''"
    by (simp add: run_defs)
  have role: "mcrb_RoleRef active_grant = \<lparr>cref_Name = ''viewer'', cref_Namespaces = None\<rparr>"
    by (simp add: run_defs)
  have del: "DeletionTimestamp (mcrb_ObjectMeta active_grant) = None" by (simp add: run_defs)
  have ok: "fst (Reconcile deps0 no_faults ('''', ''g1'') active_world) = OK"
    by (simp add: run_defs)
  then have ok': "Reconcile deps0 no_faults ('''', ''g1'') active_world
      = (OK, snd (Reconcile deps0 no_faults ('''', ''g1'') active_world))"
    by (cases "Reconcile deps0 no_faults ('''', ''g1'') active_world") simp
  have keys: "map keyOf (spoke (snd (Reconcile deps0 no_faults ('''', ''g1'') active_world))) =
       [(ClusterRoleKind, '''', ''impersonate-alice-hub1''),
        (ClusterRoleBindingKind, '''', ''impersonate-alice-hub1-rolebinding''),
        (ClusterRoleBindingKind, '''', ''g1'')]"
    by (simp add: run_defs)
  from cluster_wide_scenario[OF get name sub alice owner role del ok']
  have "\<exists>z. lookup (ClusterRoleBindingKind, '''', ''g1'')
             (spoke (snd (Reconcile deps0 no_faults ('''', ''g1'') active_world))) = Some (CRB z)
          \<and> crb_Subjects z =
              [\<lparr>sub_APIGroup = '''', sub_Kind = ''User'', sub_Name = ''alice'',
                sub_Namespace = ''''\<rparr>]
          \<and> crb_RoleRef z =
              \<lparr>ref_APIGroup = ''rbac.authorization.k8s.io'', ref_Kind = ''ClusterRole'',
               ref_Name = ''viewer''\<rparr>"
    by blast
  with name owner role del ok keys show ?thesis by blast
qed

text \<open>C5: for a Grant without deletion marker whose role scope is a list of namespaces, a
  successful reconciliation leaves, in each listed namespace, a RoleBinding named as the
  Grant that binds the first subject as a user to the Grant's role as a Role; every other
  RoleBinding of the spoke store is as before.  For the namespaces a, b and c these are
  exactly three RoleBindings.\<close>

theorem namespace_fan_out:
  assumes get: "client_Get fl HubClient (ManagedClusterRoleBindingKind, req) w = (Inr (MCRB g), w1)"
    and sub: "mcrb_Subjects g = s0 # others"
    and del: "DeletionTimestamp (mcrb_ObjectMeta g) = None"
    and scope: "cref_Namespaces (mcrb_RoleRef g) = Some nss"
    and ok: "Reconcile d fl req w = (OK, w')"
  shows "(\<forall>ns \<in> set nss.
            \<exists>x. lookup (RoleBindingKind, ns, Name (mcrb_ObjectMeta g)) (spoke w') = Some (RB x)
              \<and> rb_Subjects x =
                  [\<lparr>sub_APIGroup = '''', sub_Kind = ''User'', sub_Name = sub_Name s0,
                    sub_Namespace = ''''\<rparr>]
              \<and> rb_RoleRef x =
                  \<lparr>ref_APIGroup = ''rbac.authorization.k8s.io'', ref_Kind = ''Role'',
                   ref_Name = cref_Name (mcrb_RoleRef g)\<rparr>)
         \<and> (\<forall>k. fst k = RoleBindingKind
                \<and> k \<notin> (\<lambda>ns. (RoleBindingKind, ns, Name (mcrb_ObjectMeta g))) ` set nss
              \<longrightarrow> lookup k (spoke w') = lookup k (spoke w))"
proof -
  let ?u = "sub_Name s0" and ?h = "snd (GetUserIDAndHubOwnerIDFromLabelValues d g)"
  from Reconcile_active_OK[OF get sub del ok]
  obtain s2 where sp: "spoke w' = materialized ?u ?h g s2"
    and fr: "\<And>k. fst k \<noteq> ManagedClusterRoleBindingKind \<Longrightarrow> lookup k s2 = lookup k (spoke w)"
    by auto
  have 1: "\<exists>x. lookup (RoleBindingKind, ns, Name (mcrb_ObjectMeta g)) (spoke w') = Some (RB x)
              \<and> rb_Subjects x =
                  [\<lparr>sub_APIGroup = '''', sub_Kind = ''User'', sub_Name = sub_Name s0,
                    sub_Namespace = ''''\<rparr>]
              \<and> rb_RoleRef x =
                  \<lparr>ref_APIGroup = ''rbac.authorization.k8s.io'', ref_Kind = ''Role'',
                   ref_Name = cref_Name (mcrb_RoleRef g)\<rparr>" if "ns \<in> set nss" for ns
    using settled_RoleBinding[OF materialized_settled_rb[OF scope that, of ?u ?h s2]]
    by (simp add: sp givenRolebinding_def sub_def GroupName_def keyOf_def)
  have 2: "lookup k (spoke w') = lookup k (spoke w)"
    if "fst k = RoleBindingKind"
      and "k \<notin> (\<lambda>ns. (RoleBindingKind, ns, Name (mcrb_ObjectMeta g))) ` set nss" for k
  proof -
    have "lookup k (materialized ?u ?h g s2) = lookup k s2"
      using that scope by (intro lookup_materialized_other) auto
    moreover have "lookup k s2 = lookup k (spoke w)" using that(1) by (intro fr) simp
    ultimately show ?thesis using sp by simp
  qed
  from 1 2 show ?thesis by blast
qed

theorem namespace_fan_out_witness:
  "DeletionTimestamp (mcrb_ObjectMeta scoped_grant) = None
   \<and> cref_Namespaces (mcrb_RoleRef scoped_grant) = Some [''a'', ''b'', ''c'']
   \<and> fst (Reconcile deps0 no_faults ('''', ''g1'') scoped_world) = OK
   \<and> (\<exists>x. lookup (RoleBindingKind, ''b'', ''g1'')
             (spoke (snd (Reconcile deps0 no_faults ('''', ''g1'') scoped_world))) = Some (RB x)
          \<and> rb_Subjects x =
              [\<lparr>sub_APIGroup = '''', sub_Kind = ''User'', sub_Name = ''alice'',
                sub_Namespace = ''''\<rparr>]
          \<and> rb_RoleRef x =
              \<lparr>ref_APIGroup = ''rbac.authorization.k8s.io'', ref_Kind = ''Role'',
               ref_Name = ''viewer''\<rparr>)
   \<and> map keyOf (filter (\<lambda>ob. kindOf ob = RoleBindingKind)
        (spoke (snd (Reconcile deps0 no_faults ('''', ''g1'') scoped_world)))) =
       [(RoleBindingKind, ''a'', ''g1''), (RoleBindingKind, ''b'', ''g1''),
        (RoleBindingKind, ''c'', ''g1'')]"
proof -
  let ?w1 = "record_call HubClient (OpGet (ManagedClusterRoleBindingKind, ('''', ''g1''))) scoped_world"
  let ?s0 = "\<lparr>sub_APIGroup = GroupName, sub_Kind = ''User'', sub_Name = ''alice'',
      sub_Namespace = ''''\<rparr>"
  have get: "client_Get no_faults HubClient (ManagedClusterRoleBindingKind, ('''', ''g1''))
      scoped_world = (Inr (MCRB scoped_grant), ?w1)"
    by (simp add: run_defs)
  have sub: "mcrb_Subjects scoped_grant = ?s0 # []" by (simp add: run_defs)
  have del: "DeletionTimestamp (mcrb_ObjectMeta scoped_grant) = None" by (simp add: run_defs)
  have scope: "cref_Namespaces (mcrb_RoleRef scoped_grant) = Some [''a'', ''b'', ''c'']"
    by (simp add: run_defs)
  have nm: "Name (mcrb_ObjectMeta scoped_grant) = ''g1''"
    and rn: "cref_Name (mcrb_RoleRef scoped_grant) = ''viewer''" by (simp_all add: run_defs)
  have ok: "fst (Reconcile deps0 no_faults ('''', ''g1'') scoped_world) = OK"
    by (simp add: run_defs)
  then have ok': "Reconcile deps0 no_faults ('''', ''g1'') scoped_world
      = (OK, snd (Reconcile deps0 no_faults ('''', ''g1'') scoped_world))"
    by (cases "Reconcile deps0 no_faults ('''', ''g1'') scoped_world") simp
  have keys: "map keyOf (filter (\<lambda>ob. kindOf ob = RoleBindingKind)
        (spoke (snd (Reconcile deps0 no_faults ('''', ''g1'') scoped_world)))) =
       [(RoleBindingKind, ''a'', ''g1''), (RoleBindingKind, ''b'', ''g1''),
        (RoleBindingKind, ''c'', ''g1'')]"
    by (simp add: run_defs)
  from namespace_fan_out[OF get sub del scope ok', THEN conjunct1, rule_format, of "''b''"]
  have "\<exists>x. lookup (RoleBindingKind, ''b'', ''g1'')
             (spoke (snd (Reconcile deps0 no_faults ('''', ''g1'') scoped_world))) = Some (RB x)
          \<and> rb_Subjects x =
              [\<lparr>sub_APIGroup = '''', sub_Kind = ''User'', sub_Name = ''alice'',
                sub_Namespace = ''''\<rparr>]
          \<and> rb_RoleRef x =
              \<lparr>ref_APIGroup = ''rbac.authorization.k8s.io'', ref_Kind = ''Role'',
               ref_Name = ''viewer''\<rparr>"
    by (simp add: nm rn)
  with del scope ok keys show ?thesis by blast
qed

text \<open>C6: for an Active Grant (finalizer present, no deletion marker), after a successful
  invocation a second invocation in succession leaves the spoke store as the first left
  it: whenever the second invocation succeeds, and also when it fails at any call, unless
  the Grant is cluster-wide and carries the very name of the impersonation binding.  The
  hub store is never changed.  The fault schedules of the two invocations are
  independent.\<close>

theorem Reconcile_idempotent:
  assumes lk: "lookup (ManagedClusterRoleBindingKind, req) (hub w) = Some (MCRB g)"
    and fin: "ContainsFinalizer g (SpokeAuthorizationFinalizer d)"
    and del: "DeletionTimestamp (mcrb_ObjectMeta g) = None"
    and first: "Reconcile d fl req w = (OK, w1)"
    and second: "Reconcile d fl' req w1 = (r2, w2)"
  shows "hub w2 = hub w
         \<and> (r2 = OK \<longrightarrow> spoke w2 = spoke w1)
         \<and> (cref_Namespaces (mcrb_RoleRef g) \<noteq> None
              \<or> Name (mcrb_ObjectMeta g) \<noteq>
                  ''impersonate-'' @ sub_Name (hd (mcrb_Subjects g)) @ ''-''
                    @ snd (GetUserIDAndHubOwnerIDFromLabelValues d g) @ ''-rolebinding''
            \<longrightarrow> spoke w2 = spoke w1)"
proof -
  from Reconcile_OK_loaded[OF first lk] obtain v s0 others
    where get: "client_Get fl HubClient (ManagedClusterRoleBindingKind, req) w = (Inr (MCRB g), v)"
      and sub: "mcrb_Subjects g = s0 # others" by blast
  let ?u = "sub_Name s0" and ?h = "snd (GetUserIDAndHubOwnerIDFromLabelValues d g)"
  from Reconcile_active_OK[OF get sub del first] fin
  have s1: "spoke w1 = materialized ?u ?h g (spoke w)" and h1: "hub w1 = hub w" by auto
  from Reconcile_hub_unchanged[of d fl' req w1] second h1 have h2: "hub w2 = hub w" by simp
  from lk h1 have lk': "lookup (ManagedClusterRoleBindingKind, req) (hub w1) = Some (MCRB g)"
    by simp
  have ok: "spoke w2 = spoke w1" if "r2 = OK"
  proof -
    from second that have second': "Reconcile d fl' req w1 = (OK, w2)" by simp
    from Reconcile_OK_loaded[OF second' lk'] sub obtain v'
      where get': "client_Get fl' HubClient (ManagedClusterRoleBindingKind, req) w1
          = (Inr (MCRB g), v')" by auto
    from Reconcile_active_OK[OF get' sub del second'] fin
    have "spoke w2 = materialized ?u ?h g (spoke w1)" by auto
    with s1 show ?thesis by (simp add: materialized_idem)
  qed
  have any: "spoke w2 = spoke w1"
    if nc: "cref_Namespaces (mcrb_RoleRef g) \<noteq> None
              \<or> Name (mcrb_ObjectMeta g) \<noteq> ''impersonate-'' @ ?u @ ''-'' @ ?h @ ''-rolebinding''"
  proof -
    obtain res v' where get': "client_Get fl' HubClient (ManagedClusterRoleBindingKind, req) w1
        = (res, v')"
      by (cases "client_Get fl' HubClient (ManagedClusterRoleBindingKind, req) w1")
    show ?thesis
    proof (cases res)
      case (Inl e)
      with get' second client_Get_Inl[of fl' HubClient "(ManagedClusterRoleBindingKind, req)" w1 e v'] show ?thesis
        by (simp add: Reconcile_def)
    next
      case (Inr ob)
      with get' client_Get_Inr[of fl' HubClient "(ManagedClusterRoleBindingKind, req)" w1 ob v'] lk'
      have ob: "ob = MCRB g" and v': "spoke v' = spoke w1" by simp_all
      from fin have af: "addFinalizerIfNeeded d fl' g v' = (None, g, v')"
        by (simp add: addFinalizerIfNeeded_def)
      from Reconcile_active[OF get'[unfolded Inr ob] sub del, of d] af second
      have mat: "materialize fl' ?u ?h g v' = (r2, w2)" by simp
      have "spoke w2 = spoke v'"
      proof (rule materialize_settled[OF _ _ _ _ mat])
        show "settled (CR (cr ?u ?h g)) (mutateClusterRole (cr ?u ?h g)) (spoke v')"
          by (simp add: v' s1 materialized_settled_cr)
        show "settled (CRB (crb ?u ?h g)) (mutateClusterRoleBinding (crb ?u ?h g)) (spoke v')"
          using nc by (simp add: v' s1) (rule materialized_settled_crb, auto)
        show "settled (CRB (givenClusterRolebinding ?u g))
            (mutateClusterRoleBinding (givenClusterRolebinding ?u g)) (spoke v')"
          if "cref_Namespaces (mcrb_RoleRef g) = None"
          using that by (simp add: v' s1 materialized_settled_given)
        show "settled (RB (givenRolebinding ?u g ns)) (mutateRoleBinding (givenRolebinding ?u g ns))
            (spoke v')"
          if "cref_Namespaces (mcrb_RoleRef g) = Some nss" and "ns \<in> set nss" for nss ns
          using that by (simp add: v' s1 materialized_settled_rb)
      qed
      with v' show ?thesis by simp
    qed
  qed
  from h2 ok any sub show ?thesis by simp
qed

theorem Reconcile_idempotent_witness:
  "lookup (ManagedClusterRoleBindingKind, ('''', ''g1'')) (hub active_world) = Some (MCRB active_grant)
   \<and> ContainsFinalizer active_grant (SpokeAuthorizationFinalizer deps0)
   \<and> DeletionTimestamp (mcrb_ObjectMeta active_grant) = None
   \<and> fst (Reconcile deps0 no_faults ('''', ''g1'') active_world) = OK
   \<and> fst (Reconcile deps0 no_faults ('''', ''g1'')
        (snd (Reconcile deps0 no_faults ('''', ''g1'') active_world))) = OK
   \<and> spoke (snd (Reconcile deps0 no_faults ('''', ''g1'')
        (snd (Reconcile deps0 no_faults ('''', ''g1'') active_world))))
     = spoke (snd (Reconcile deps0 no_faults ('''', ''g1'') active_world))
   \<and> fst (Reconcile deps0 patch_faults ('''', ''g1'')
        (snd (Reconcile deps0 no_faults ('''', ''g1'') active_world)))
     = Err (StoreError ''patch failed'')
   \<and> Name (mcrb_ObjectMeta active_grant) \<noteq>
        ''impersonate-'' @ sub_Name (hd (mcrb_Subjects active_grant)) @ ''-''
          @ snd (GetUserIDAndHubOwnerIDFromLabelValues deps0 active_grant) @ ''-rolebinding''
   \<and> spoke (snd (Reconcile deps0 patch_faults ('''', ''g1'')
        (snd (Reconcile deps0 no_faults ('''', ''g1'') active_world))))
     = spoke (snd (Reconcile deps0 no_faults ('''', ''g1'') active_world))"
proof -
  let ?r1 = "Reconcile deps0 no_faults ('''', ''g1'') active_world"
  let ?r2 = "Reconcile deps0 no_faults ('''', ''g1'') (snd ?r1)"
  let ?r3 = "Reconcile deps0 patch_faults ('''', ''g1'') (snd ?r1)"
  have lk: "lookup (ManagedClusterRoleBindingKind, ('''', ''g1'')) (hub active_world)
      = Some (MCRB active_grant)"
    by (simp add: run_defs)
  have fin: "ContainsFinalizer active_grant (SpokeAuthorizationFinalizer deps0)"
    by (simp add: run_defs)
  have del: "DeletionTimestamp (mcrb_ObjectMeta active_grant) = None" by (simp add: run_defs)
  have nm: "Name (mcrb_ObjectMeta active_grant) \<noteq>
        ''impersonate-'' @ sub_Name (hd (mcrb_Subjects active_grant)) @ ''-''
          @ snd (GetUserIDAndHubOwnerIDFromLabelValues deps0 active_grant) @ ''-rolebinding''"
    by (simp add: run_defs)
  have ok1: "fst ?r1 = OK" by (simp add: run_defs)
  have ok2: "fst ?r2 = OK" by (simp add: run_defs)
  have err3: "fst ?r3 = Err (StoreError ''patch failed'')" by (simp add: run_defs)
  from ok1 have first: "?r1 = (OK, snd ?r1)" by (cases ?r1) simp
  have second: "?r2 = (fst ?r2, snd ?r2)" by simp
  have third: "?r3 = (fst ?r3, snd ?r3)" by simp
  from Reconcile_idempotent[OF lk fin del first second] ok2
  have a: "spoke (snd ?r2) = spoke (snd ?r1)" by simp
  from Reconcile_idempotent[OF lk fin del first third] nm
  have b: "spoke (snd ?r3) = spoke (snd ?r1)" by simp
  from a b lk fin del ok1 ok2 err3 nm show ?thesis by simp
qed

end
